theory Spec2Isabelle
  imports Main
begin

section \<open>JavaScript values and strings\<close>

text \<open>
  The AI operations and the rows handed to the alignment engine are typed \<open>any\<close> in the
  source. A field is modelled as a \<open>jsval\<close>: \<open>JUndefined\<close> is an absent field, and
  \<open>JObject\<close> is an object or an array, given with what its conversion to a string
  yields: \<open>None\<close> when the conversion raises, as it does for an object parsed from JSON
  that has a property named \<open>toString\<close>. Numbers are the integers (what a JSON integer
  literal parses to). A \<open>char\<close> is read as a code point below 256.
\<close>

datatype jsval =
  JUndefined | JNull | JBool bool | JNum int | JStr string | JObject "string option"

text \<open>What is raised: a TypeError (a property of null, a method of a value that has
  none), an error of the persistence layer, a SyntaxError of \<open>JSON.parse\<close>, or an
  \<open>Error\<close> with a message.\<close>

datatype exn = TypeError | DbError | SyntaxError | Error string

text \<open>\<open>!!v\<close>: the values JavaScript treats as true in a condition.\<close>

fun truthy :: "jsval \<Rightarrow> bool" where
  "truthy JUndefined = False"
| "truthy JNull = False"
| "truthy (JBool b) = b"
| "truthy (JNum n) = (n \<noteq> 0)"
| "truthy (JStr s) = (s \<noteq> [])"
| "truthy (JObject conv) = True"

text \<open>\<open>a || b\<close>\<close>

definition js_or :: "jsval \<Rightarrow> jsval \<Rightarrow> jsval" where
  "js_or a b = (if truthy a then a else b)"

text \<open>\<open>String.prototype.toLowerCase\<close> on code points below 256: A-Z and the
  Latin-1 capitals (all of 192..222 but the multiplication sign 215) move up by 32.\<close>

definition lower_char :: "char \<Rightarrow> char" where
  "lower_char c =
     (let n = (of_char c :: nat)
      in if (65 \<le> n \<and> n \<le> 90) \<or> (192 \<le> n \<and> n \<le> 222 \<and> n \<noteq> 215)
         then char_of (n + 32) else c)"

definition toLowerCase :: "string \<Rightarrow> string" where
  "toLowerCase s = map lower_char s"

text \<open>White space of \<open>trim\<close> and of the regular expression class \<open>\s\<close>, below 256:
  tab, line feed, vertical tab, form feed, carriage return, space, no-break space.\<close>

definition is_space :: "char \<Rightarrow> bool" where
  "is_space c = ((of_char c :: nat) \<in> {9, 10, 11, 12, 13, 32, 160})"

definition trim :: "string \<Rightarrow> string" where
  "trim s = rev (dropWhile is_space (rev (dropWhile is_space s)))"

text \<open>\<open>s.startsWith(p)\<close> and \<open>s.includes(p)\<close>\<close>

fun starts_with :: "'a list \<Rightarrow> 'a list \<Rightarrow> bool" where
  "starts_with s [] = True"
| "starts_with [] (p # ps) = False"
| "starts_with (c # cs) (p # ps) = (c = p \<and> starts_with cs ps)"

fun str_includes :: "string \<Rightarrow> string \<Rightarrow> bool" where
  "str_includes [] p = (p = [])"
| "str_includes (c # cs) p = (starts_with (c # cs) p \<or> str_includes cs p)"

text \<open>Decimal digits of a number, as template literals and \<open>toString\<close> print it.\<close>

fun show_nat :: "nat \<Rightarrow> string" where
  "show_nat n =
     (if n < 10 then [char_of (48 + n)]
      else show_nat (n div 10) @ [char_of (48 + n mod 10)])"

declare show_nat.simps [simp del]

definition show_int :: "int \<Rightarrow> string" where
  "show_int i = (if i < 0 then CHR ''-'' # show_nat (nat (- i)) else show_nat (nat i))"

text \<open>The conversion to a string that a template literal applies to an interpolated
  value, and that \<open>v.toString()\<close> performs on a value that is neither null nor
  undefined. It raises a TypeError for an object whose conversion raises.\<close>

fun js_to_string :: "jsval \<Rightarrow> exn + string" where
  "js_to_string JUndefined = Inr ''undefined''"
| "js_to_string JNull = Inr ''null''"
| "js_to_string (JBool b) = Inr (if b then ''true'' else ''false'')"
| "js_to_string (JNum n) = Inr (show_int n)"
| "js_to_string (JStr s) = Inr s"
| "js_to_string (JObject None) = Inl TypeError"
| "js_to_string (JObject (Some s)) = Inr s"

text \<open>Interpolating the value in a template literal raises.\<close>

definition template_raises :: "jsval \<Rightarrow> bool" where
  "template_raises v = (case js_to_string v of Inl e \<Rightarrow> True | Inr s \<Rightarrow> False)"

section \<open>Task alignment (src/services/taskAlignment.ts)\<close>

subsection \<open>isValidUUID\<close>

text \<open>The regular expression
  \<^verbatim>\<open>/^[0-9a-f]{8}-[0-9a-f]{4}-[1-5][0-9a-f]{3}-[89ab][0-9a-f]{3}-[0-9a-f]{12}$/i\<close>.\<close>

definition is_hex :: "char \<Rightarrow> bool" where
  "is_hex c = (c \<in> set ''0123456789abcdefABCDEF'')"

definition uuid_shape :: "string \<Rightarrow> bool" where
  "uuid_shape s =
     (length s = 36
      \<and> list_all is_hex (take 8 s) \<and> s ! 8 = CHR ''-''
      \<and> list_all is_hex (take 4 (drop 9 s)) \<and> s ! 13 = CHR ''-''
      \<and> s ! 14 \<in> set ''12345'' \<and> list_all is_hex (take 3 (drop 15 s)) \<and> s ! 18 = CHR ''-''
      \<and> s ! 19 \<in> set ''89abAB'' \<and> list_all is_hex (take 3 (drop 20 s)) \<and> s ! 23 = CHR ''-''
      \<and> list_all is_hex (drop 24 s))"

fun isValidUUID :: "jsval \<Rightarrow> bool" where
  "isValidUUID (JStr s) = (s \<noteq> [] \<and> uuid_shape s)"
| "isValidUUID v = False"

subsection \<open>Data\<close>

text \<open>One proposed operation, as emitted by the AI backend.\<close>

record aiop =
  op_id :: jsval
  op_action :: jsval
  op_title :: jsval
  op_duration :: jsval
  op_importance :: jsval
  op_status :: jsval
  op_scheduledTime :: jsval

text \<open>A row of the tasks table; \<open>existingTasks\<close> is a list of such rows.\<close>

record task_row =
  row_id :: jsval
  row_user :: string
  row_title :: jsval
  row_duration_minutes :: jsval
  row_importance :: jsval
  row_status :: jsval
  row_scheduled_time :: jsval

text \<open>
  The persistence layer. \<open>tasks\<close> is the table. A query either runs or raises:
  \<open>faults\<close> is the schedule of the queries to come, \<open>True\<close> for one that raises
  (an exhausted schedule means no further fault). \<open>fresh\<close> names the identities that
  \<open>INSERT ... RETURNING id\<close> assigns and \<open>issued\<close> counts them.
  Column types and constraints are not in the sources: a column keeps the value
  it is given, and identities are compared as they are stored.
\<close>

record store =
  tasks :: "task_row list"
  faults :: "bool list"
  fresh :: "nat \<Rightarrow> string"
  issued :: nat

definition query_raises :: "store \<Rightarrow> bool \<times> store" where
  "query_raises db =
     (case faults db of [] \<Rightarrow> (False, db) | f # fs \<Rightarrow> (f, db\<lparr>faults := fs\<rparr>))"

text \<open>\<open>INSERT INTO tasks (...) VALUES ($1, ..., $6, CURRENT_DATE) RETURNING id\<close>\<close>

definition sql_insert_task ::
  "string \<Rightarrow> jsval \<Rightarrow> jsval \<Rightarrow> jsval \<Rightarrow> jsval \<Rightarrow> jsval \<Rightarrow> store \<Rightarrow> (exn + jsval) \<times> store" where
  "sql_insert_task userId title duration importance status scheduled db =
     (case query_raises db of
        (True, db1) \<Rightarrow> (Inl DbError, db1)
      | (False, db1) \<Rightarrow>
          (let new_id = JStr (fresh db1 (issued db1));
               r = \<lparr>row_id = new_id, row_user = userId, row_title = title,
                    row_duration_minutes = duration, row_importance = importance,
                    row_status = status, row_scheduled_time = scheduled\<rparr>
           in (Inr new_id, db1\<lparr>tasks := tasks db1 @ [r], issued := Suc (issued db1)\<rparr>)))"

definition targets :: "jsval \<Rightarrow> string \<Rightarrow> task_row \<Rightarrow> bool" where
  "targets i userId r = (row_id r = i \<and> row_user r = userId)"

text \<open>\<open>DELETE FROM tasks WHERE id = $1 AND user_id = $2 [RETURNING id, title]\<close>:
  the deleted rows are returned.\<close>

definition sql_delete_task :: "jsval \<Rightarrow> string \<Rightarrow> store \<Rightarrow> (exn + task_row list) \<times> store" where
  "sql_delete_task i userId db =
     (case query_raises db of
        (True, db1) \<Rightarrow> (Inl DbError, db1)
      | (False, db1) \<Rightarrow>
          (Inr (filter (targets i userId) (tasks db1)),
           db1\<lparr>tasks := filter (\<lambda>r. \<not> targets i userId r) (tasks db1)\<rparr>))"

text \<open>\<open>COALESCE($n, column)\<close>: a NULL parameter keeps the column.\<close>

definition coalesce :: "jsval \<Rightarrow> jsval \<Rightarrow> jsval" where
  "coalesce p c = (if p = JNull \<or> p = JUndefined then c else p)"

text \<open>The UPDATE of the rescue path: the five columns are set to the parameters.\<close>

definition set_columns :: "jsval \<Rightarrow> jsval \<Rightarrow> jsval \<Rightarrow> jsval \<Rightarrow> jsval \<Rightarrow> task_row \<Rightarrow> task_row" where
  "set_columns p1 p2 p3 p4 p5 r =
     r\<lparr>row_title := p1, row_duration_minutes := p2, row_importance := p3,
       row_status := p4, row_scheduled_time := p5\<rparr>"

definition sql_update_set ::
  "jsval \<Rightarrow> jsval \<Rightarrow> jsval \<Rightarrow> jsval \<Rightarrow> jsval \<Rightarrow> jsval \<Rightarrow> string \<Rightarrow> store \<Rightarrow> (exn + task_row list) \<times> store" where
  "sql_update_set p1 p2 p3 p4 p5 i userId db =
     (case query_raises db of
        (True, db1) \<Rightarrow> (Inl DbError, db1)
      | (False, db1) \<Rightarrow>
          (Inr (map (set_columns p1 p2 p3 p4 p5) (filter (targets i userId) (tasks db1))),
           db1\<lparr>tasks := map (\<lambda>r. if targets i userId r then set_columns p1 p2 p3 p4 p5 r else r)
                            (tasks db1)\<rparr>))"

text \<open>The UPDATE of the direct path:
  \<^verbatim>\<open>title = COALESCE($1, title), duration_minutes = COALESCE($2, duration_minutes),
  importance = COALESCE($3, importance), status = COALESCE($4, status),
  scheduled_time = $5\<close>.\<close>

definition coalesce_columns :: "jsval \<Rightarrow> jsval \<Rightarrow> jsval \<Rightarrow> jsval \<Rightarrow> jsval \<Rightarrow> task_row \<Rightarrow> task_row" where
  "coalesce_columns p1 p2 p3 p4 p5 r =
     r\<lparr>row_title := coalesce p1 (row_title r),
       row_duration_minutes := coalesce p2 (row_duration_minutes r),
       row_importance := coalesce p3 (row_importance r),
       row_status := coalesce p4 (row_status r),
       row_scheduled_time := p5\<rparr>"

definition sql_update_coalesce ::
  "jsval \<Rightarrow> jsval \<Rightarrow> jsval \<Rightarrow> jsval \<Rightarrow> jsval \<Rightarrow> jsval \<Rightarrow> string \<Rightarrow> store \<Rightarrow> (exn + task_row list) \<times> store" where
  "sql_update_coalesce p1 p2 p3 p4 p5 i userId db =
     (case query_raises db of
        (True, db1) \<Rightarrow> (Inl DbError, db1)
      | (False, db1) \<Rightarrow>
          (Inr (map (coalesce_columns p1 p2 p3 p4 p5) (filter (targets i userId) (tasks db1))),
           db1\<lparr>tasks := map (\<lambda>r. if targets i userId r then coalesce_columns p1 p2 p3 p4 p5 r else r)
                            (tasks db1)\<rparr>))"

subsection \<open>The result\<close>

text \<open>
  A conflict is an \<open>{issue, suggestion}\<close> pair of strings built from a template. Each
  constructor is one template of the source and carries the values the template
  interpolates (building the string raises when the conversion of such a value does;
  the loop bodies below say where):
  \<^item> \<open>InvalidTitle\<close>: "Invalid task title" with the operation;
  \<^item> \<open>InvalidDuration\<close>: "Invalid task duration" with the title;
  \<^item> \<open>SimilarExists\<close>: "Similar task already exists" with the existing and the proposed title;
  \<^item> \<open>CreateFailed\<close>: "Failed to create task" with the title;
  \<^item> \<open>DeleteWithoutID\<close>, \<open>ModifyWithoutID\<close>: "Cannot delete/modify task without ID" with the operation;
  \<^item> \<open>DeleteInvalidUUID\<close>, \<open>ModifyInvalidUUID\<close>: "Invalid UUID format for deletion/modification" with the id;
  \<^item> \<open>DeleteNotFound\<close>, \<open>ModifyNotFound\<close>: "No task found with ID" with the id;
  \<^item> \<open>DeleteFailed\<close>, \<open>ModifyFailed\<close>: "Failed to delete/modify task with ID" with the id.
\<close>

datatype conflict =
    InvalidTitle aiop
  | InvalidDuration jsval
  | SimilarExists jsval jsval
  | CreateFailed jsval
  | DeleteWithoutID aiop
  | DeleteInvalidUUID jsval
  | DeleteNotFound jsval
  | DeleteFailed jsval
  | ModifyWithoutID aiop
  | ModifyInvalidUUID jsval
  | ModifyNotFound jsval
  | ModifyFailed jsval

record new_task =
  new_id :: jsval
  new_title :: string
  new_duration :: jsval
  new_importance :: jsval
  new_scheduledTime :: jsval
  new_status :: string

text \<open>\<open>{id, title}\<close>, and \<open>originalTitle\<close> on the rescue path.\<close>

record modified_task =
  mod_id :: jsval
  mod_title :: jsval
  mod_originalTitle :: "jsval option"

text \<open>\<open>{...matchingTask, action: 'delete'}\<close> on the rescue path, \<open>{id, title}\<close> otherwise.\<close>

datatype deleted_task = DeletedRow task_row | DeletedId jsval jsval

record alignment_result =
  insertedTasks :: "new_task list"
  modifiedTasks :: "modified_task list"
  deletedTasks :: "deleted_task list"
  conflicts :: "conflict list"

definition push_conflict :: "conflict \<Rightarrow> alignment_result \<Rightarrow> alignment_result" where
  "push_conflict c res = res\<lparr>conflicts := conflicts res @ [c]\<rparr>"

subsection \<open>The three filters\<close>

definition create_shaped :: "aiop \<Rightarrow> bool" where
  "create_shaped t =
     ((\<not> truthy (op_id t) \<and> \<not> truthy (op_action t))
      \<or> op_action t = JStr ''add''
      \<or> op_action t = JStr ''create'')"

definition delete_shaped :: "aiop \<Rightarrow> bool" where
  "delete_shaped t =
     (op_action t = JStr ''delete'' \<or> op_action t = JStr ''remove''
      \<or> op_action t = JStr ''completed'')"

definition modify_shaped :: "aiop \<Rightarrow> bool" where
  "modify_shaped t =
     (op_action t = JStr ''modify'' \<or> op_action t = JStr ''update''
      \<or> op_action t = JStr ''change'')"

text \<open>\<open>generatedTasks.filter(task => ...)\<close>. An element of the batch is \<open>None\<close> when it
  is \<open>null\<close>: each of the three callbacks reads a property of \<open>task\<close> first, which
  raises a TypeError there.\<close>

fun js_filter :: "(aiop \<Rightarrow> bool) \<Rightarrow> aiop option list \<Rightarrow> exn + aiop list" where
  "js_filter P [] = Inr []"
| "js_filter P (None # ts) = Inl TypeError"
| "js_filter P (Some t # ts) =
     (case js_filter P ts of
        Inl e \<Rightarrow> Inl e
      | Inr ks \<Rightarrow> Inr (if P t then t # ks else ks))"

subsection \<open>The create pass\<close>

text \<open>\<open>existingTasks.find(existing => existing.title.toLowerCase().includes(
  task.title.toLowerCase().substring(0, 20)) || task.title.toLowerCase().includes(
  existing.title.toLowerCase().substring(0, 20)))\<close>; calling \<open>toLowerCase\<close> on a title
  that is not a string raises.\<close>

fun find_similar :: "string \<Rightarrow> task_row list \<Rightarrow> exn + task_row option" where
  "find_similar title [] = Inr None"
| "find_similar title (e # es) =
     (case row_title e of
        JStr et \<Rightarrow>
          (if str_includes (toLowerCase et) (take 20 (toLowerCase title))
              \<or> str_includes (toLowerCase title) (take 20 (toLowerCase et))
           then Inr (Some e) else find_similar title es)
      | _ \<Rightarrow> Inl TypeError)"

text \<open>The checks on a proposed task before anything is looked up or stored.\<close>

definition invalid_title :: "aiop \<Rightarrow> bool" where
  "invalid_title t =
     (case op_title t of JStr s \<Rightarrow> s = [] \<or> trim s = [] | _ \<Rightarrow> True)"

definition invalid_duration :: "aiop \<Rightarrow> bool" where
  "invalid_duration t =
     (case op_duration t of JNum n \<Rightarrow> n = 0 \<or> n \<le> 0 | _ \<Rightarrow> True)"

text \<open>The \<open>try\<close> block of the first loop, for one proposed task. The state is the
  store and the result under construction; the first component is the exception that
  left the block, if any. Past the first check the title is a string, so the templates
  that print it do not raise.\<close>

definition add_task_try :: "string \<Rightarrow> task_row list \<Rightarrow> aiop \<Rightarrow> store \<times> alignment_result \<Rightarrow> exn option \<times> store \<times> alignment_result" where
  "add_task_try userId existingTasks t st =
     (case st of (db, res) \<Rightarrow>
      if invalid_title t then (None, db, push_conflict (InvalidTitle t) res)
      else if invalid_duration t then
        (None, db, push_conflict (InvalidDuration (op_title t)) res)
      else
        (case op_title t of
           JStr title \<Rightarrow>
             (case find_similar title existingTasks of
                Inl e \<Rightarrow> (Some e, db, res)
              | Inr (Some existingTask) \<Rightarrow>
                  (None, db,
                   push_conflict (SimilarExists (row_title existingTask) (op_title t)) res)
              | Inr None \<Rightarrow>
                  (case sql_insert_task userId (JStr (trim title))
                          (js_or (op_duration t) (JNum 30))
                          (js_or (op_importance t) (JStr ''medium'')) (JStr ''todo'')
                          (js_or (op_scheduledTime t) JNull) db of
                     (Inl e, db1) \<Rightarrow> (Some e, db1, res)
                   | (Inr i, db1) \<Rightarrow>
                       (None, db1, res\<lparr>insertedTasks := insertedTasks res @
                          [\<lparr>new_id = i, new_title = trim title,
                            new_duration = js_or (op_duration t) (JNum 30),
                            new_importance = js_or (op_importance t) (JStr ''medium''),
                            new_scheduledTime = js_or (op_scheduledTime t) JNull,
                            new_status = ''todo''\<rparr>]\<rparr>)))
         | other \<Rightarrow> (None, db, push_conflict (InvalidTitle t) res)))"

text \<open>
  The body of the first loop: the block, and the handler of its \<open>catch\<close>. The handler
  builds its conflict from a template that prints \<open>task.title\<close>; when that conversion
  raises, the exception leaves the handler and with it the loop. The first component
  of the result is that exception, \<open>None\<close> when the body ends normally and the loop goes
  on. The bodies of the other two loops have the same form, with \<open>task.id\<close> printed
  by their handlers.
\<close>

definition add_task :: "string \<Rightarrow> task_row list \<Rightarrow> aiop \<Rightarrow> store \<times> alignment_result \<Rightarrow> exn option \<times> store \<times> alignment_result" where
  "add_task userId existingTasks t st =
     (case add_task_try userId existingTasks t st of
        (None, db, res) \<Rightarrow> (None, db, res)
      | (Some insertError, db, res) \<Rightarrow>
          (if template_raises (op_title t) then (Some TypeError, db, res)
           else (None, db, push_conflict (CreateFailed (op_title t)) res)))"

subsection \<open>The delete pass\<close>

text \<open>\<open>existingTasks.find(t => t.title.toLowerCase() === (task.title || '').toLowerCase())\<close>:
  the first row whose title equals the proposed one up to case; \<open>toLowerCase\<close> raises on
  a value that is not a string.\<close>

fun find_by_title :: "jsval \<Rightarrow> task_row list \<Rightarrow> exn + task_row option" where
  "find_by_title title [] = Inr None"
| "find_by_title title (e # es) =
     (case row_title e of
        JStr et \<Rightarrow>
          (case js_or title (JStr []) of
             JStr pt \<Rightarrow>
               (if toLowerCase et = toLowerCase pt then Inr (Some e)
                else find_by_title title es)
           | _ \<Rightarrow> Inl TypeError)
      | _ \<Rightarrow> Inl TypeError)"

definition push_deleted :: "deleted_task \<Rightarrow> alignment_result \<Rightarrow> alignment_result" where
  "push_deleted d res = res\<lparr>deletedTasks := deletedTasks res @ [d]\<rparr>"

definition push_modified :: "modified_task \<Rightarrow> alignment_result \<Rightarrow> alignment_result" where
  "push_modified m res = res\<lparr>modifiedTasks := modifiedTasks res @ [m]\<rparr>"

text \<open>The rescue of a delete: the inner \<open>try\<close> with its handler, which only logs.\<close>

definition rescue_delete :: "string \<Rightarrow> task_row list \<Rightarrow> aiop \<Rightarrow> store \<times> alignment_result \<Rightarrow> store \<times> alignment_result" where
  "rescue_delete userId existingTasks t st =
     (case st of (db, res) \<Rightarrow>
      (case find_by_title (op_title t) existingTasks of
        Inl err \<Rightarrow> (db, res)
      | Inr None \<Rightarrow> (db, res)
      | Inr (Some matchingTask) \<Rightarrow>
          (if isValidUUID (row_id matchingTask) then
             (case sql_delete_task (row_id matchingTask) userId db of
                (Inl err, db1) \<Rightarrow> (db1, res)
              | (Inr rows, db1) \<Rightarrow> (db1, push_deleted (DeletedRow matchingTask) res))
           else (db, res))))"

text \<open>\<open>deleteResult.rows[0]?.title || task.title || `Task ${task.id}`\<close>\<close>

definition deleted_title :: "jsval \<Rightarrow> jsval \<Rightarrow> jsval \<Rightarrow> exn + jsval" where
  "deleted_title rowTitle title i =
     (if truthy rowTitle then Inr rowTitle
      else if truthy title then Inr title
      else (case js_to_string i of
              Inl e \<Rightarrow> Inl e
            | Inr s \<Rightarrow> Inr (JStr (''Task '' @ s))))"

text \<open>The \<open>try\<close> block of the second loop. The conflict for a missing id prints
  \<open>task.title || JSON.stringify(task)\<close> and the conflict for a malformed id prints
  \<open>task.id\<close>: when the conversion raises, the block is left before anything is
  pushed.\<close>

definition delete_task_try :: "string \<Rightarrow> task_row list \<Rightarrow> aiop \<Rightarrow> store \<times> alignment_result \<Rightarrow> exn option \<times> store \<times> alignment_result" where
  "delete_task_try userId existingTasks t st =
     (case st of (db, res) \<Rightarrow>
      if \<not> truthy (op_id t) then
        (if truthy (op_title t) \<and> template_raises (op_title t) then (Some TypeError, db, res)
         else (None, db, push_conflict (DeleteWithoutID t) res))
      else if \<not> isValidUUID (op_id t) then
        (if template_raises (op_id t) then (Some TypeError, db, res)
         else (None, rescue_delete userId existingTasks t
                       (db, push_conflict (DeleteInvalidUUID (op_id t)) res)))
      else
        (case sql_delete_task (op_id t) userId db of
           (Inl e, db1) \<Rightarrow> (Some e, db1, res)
         | (Inr [], db1) \<Rightarrow> (None, db1, push_conflict (DeleteNotFound (op_id t)) res)
         | (Inr (r # rs), db1) \<Rightarrow>
             (case deleted_title (row_title r) (op_title t) (op_id t) of
                Inl e \<Rightarrow> (Some e, db1, res)
              | Inr title \<Rightarrow> (None, db1, push_deleted (DeletedId (op_id t) title) res))))"

text \<open>The body of the second loop. The handler prints \<open>task.id\<close>.\<close>

definition delete_task :: "string \<Rightarrow> task_row list \<Rightarrow> aiop \<Rightarrow> store \<times> alignment_result \<Rightarrow> exn option \<times> store \<times> alignment_result" where
  "delete_task userId existingTasks t st =
     (case delete_task_try userId existingTasks t st of
        (None, db, res) \<Rightarrow> (None, db, res)
      | (Some deleteError, db, res) \<Rightarrow>
          (if template_raises (op_id t) then (Some TypeError, db, res)
           else (None, db, push_conflict (DeleteFailed (op_id t)) res)))"

subsection \<open>The modify pass\<close>

definition rescue_modify :: "string \<Rightarrow> task_row list \<Rightarrow> aiop \<Rightarrow> store \<times> alignment_result \<Rightarrow> store \<times> alignment_result" where
  "rescue_modify userId existingTasks t st =
     (case st of (db, res) \<Rightarrow>
      (case find_by_title (op_title t) existingTasks of
        Inl err \<Rightarrow> (db, res)
      | Inr None \<Rightarrow> (db, res)
      | Inr (Some matchingTask) \<Rightarrow>
          (if isValidUUID (row_id matchingTask) then
             (case sql_update_set
                     (js_or (op_title t) (row_title matchingTask))
                     (js_or (op_duration t) (row_duration_minutes matchingTask))
                     (js_or (op_importance t) (row_importance matchingTask))
                     (js_or (op_status t) (row_status matchingTask))
                     (js_or (op_scheduledTime t) (row_scheduled_time matchingTask))
                     (row_id matchingTask) userId db of
                (Inl err, db1) \<Rightarrow> (db1, res)
              | (Inr rows, db1) \<Rightarrow>
                  (db1, push_modified
                     \<lparr>mod_id = row_id matchingTask,
                      mod_title = js_or (op_title t) (row_title matchingTask),
                      mod_originalTitle = Some (row_title matchingTask)\<rparr> res))
           else (db, res))))"

definition modify_task_try :: "string \<Rightarrow> task_row list \<Rightarrow> aiop \<Rightarrow> store \<times> alignment_result \<Rightarrow> exn option \<times> store \<times> alignment_result" where
  "modify_task_try userId existingTasks t st =
     (case st of (db, res) \<Rightarrow>
      if \<not> truthy (op_id t) then
        (if truthy (op_title t) \<and> template_raises (op_title t) then (Some TypeError, db, res)
         else (None, db, push_conflict (ModifyWithoutID t) res))
      else if \<not> isValidUUID (op_id t) then
        (if template_raises (op_id t) then (Some TypeError, db, res)
         else (None, rescue_modify userId existingTasks t
                       (db, push_conflict (ModifyInvalidUUID (op_id t)) res)))
      else
        (case sql_update_coalesce
                (js_or (op_title t) JNull) (js_or (op_duration t) JNull)
                (js_or (op_importance t) JNull) (js_or (op_status t) JNull)
                (js_or (op_scheduledTime t) JNull) (op_id t) userId db of
           (Inl e, db1) \<Rightarrow> (Some e, db1, res)
         | (Inr [], db1) \<Rightarrow> (None, db1, push_conflict (ModifyNotFound (op_id t)) res)
         | (Inr (r # rs), db1) \<Rightarrow>
             (None, db1, push_modified
                \<lparr>mod_id = op_id t, mod_title = js_or (op_title t) (row_title r),
                 mod_originalTitle = None\<rparr> res)))"

definition modify_task :: "string \<Rightarrow> task_row list \<Rightarrow> aiop \<Rightarrow> store \<times> alignment_result \<Rightarrow> exn option \<times> store \<times> alignment_result" where
  "modify_task userId existingTasks t st =
     (case modify_task_try userId existingTasks t st of
        (None, db, res) \<Rightarrow> (None, db, res)
      | (Some modifyError, db, res) \<Rightarrow>
          (if template_raises (op_id t) then (Some TypeError, db, res)
           else (None, db, push_conflict (ModifyFailed (op_id t)) res)))"

subsection \<open>alignTasksWithPlan\<close>

definition empty_result :: alignment_result where
  "empty_result = \<lparr>insertedTasks = [], modifiedTasks = [], deletedTasks = [], conflicts = []\<rparr>"

text \<open>A \<open>for ... of\<close> loop over the kept operations: an exception that leaves a body
  leaves the loop, and the operations after it are not visited.\<close>

fun run_loop ::
  "(aiop \<Rightarrow> store \<times> alignment_result \<Rightarrow> exn option \<times> store \<times> alignment_result)
     \<Rightarrow> aiop list \<Rightarrow> store \<times> alignment_result \<Rightarrow> exn option \<times> store \<times> alignment_result" where
  "run_loop body [] st = (None, st)"
| "run_loop body (t # ts) st =
     (case body t st of
        (None, st1) \<Rightarrow> run_loop body ts st1
      | (Some e, st1) \<Rightarrow> (Some e, st1))"

text \<open>The block inside the outer \<open>try\<close>: the three filters and the three loops, in the
  order of the source. It ends with the exception that left it, if any, and with the
  store and the result as they were at that point.\<close>

definition align_block :: "string \<Rightarrow> aiop option list \<Rightarrow> task_row list \<Rightarrow> store \<Rightarrow> exn option \<times> store \<times> alignment_result" where
  "align_block userId generatedTasks existingTasks db =
     (let st0 = (db, empty_result) in
      case js_filter create_shaped generatedTasks of
        Inl e \<Rightarrow> (Some e, st0)
      | Inr tasksToAdd \<Rightarrow>
          (case run_loop (add_task userId existingTasks) tasksToAdd st0 of
             (Some e, st1) \<Rightarrow> (Some e, st1)
           | (None, st1) \<Rightarrow>
               (case js_filter delete_shaped generatedTasks of
                  Inl e \<Rightarrow> (Some e, st1)
                | Inr tasksToDelete \<Rightarrow>
                    (case run_loop (delete_task userId existingTasks) tasksToDelete st1 of
                       (Some e, st2) \<Rightarrow> (Some e, st2)
                     | (None, st2) \<Rightarrow>
                         (case js_filter modify_shaped generatedTasks of
                            Inl e \<Rightarrow> (Some e, st2)
                          | Inr tasksToModify \<Rightarrow>
                              run_loop (modify_task userId existingTasks) tasksToModify st2)))))"

text \<open>How a call ends: it returns a value or an exception leaves it.\<close>

datatype 'a completion = Returned 'a | Thrown exn

text \<open>The function: the \<open>try\<close> block returns \<open>results\<close>, and so does the handler of
  the outer \<open>catch\<close>. The plan argument is not read by the source and is left out.\<close>

definition alignTasksWithPlan :: "store \<Rightarrow> string \<Rightarrow> aiop option list \<Rightarrow> task_row list \<Rightarrow> alignment_result completion \<times> store" where
  "alignTasksWithPlan sql userId generatedTasks existingTasks =
     (case align_block userId generatedTasks existingTasks sql of
        (None, db, results) \<Rightarrow> (Returned results, db)
      | (Some error, db, results) \<Rightarrow> (Returned results, db))"


section \<open>The model router (src/utils/ai.ts)\<close>

subsection \<open>Configuration\<close>





subsection \<open>callOptimalAI\<close>













subsection \<open>cleanAIResponse\<close>

text \<open>
  The function counts the length of its text and inserts the bullet U+2022, so the text
  is modelled as JavaScript holds it: a list of UTF-16 code units. \<open>ustr\<close> turns a
  literal into code units.
\<close>

type_synonym ustring = "nat list"

definition ustr :: "string \<Rightarrow> ustring" where
  "ustr s = map of_char s"

text \<open>The class \<open>\s\<close>, which is also what \<open>trim\<close> removes: white space and line
  terminators. The dot of a regular expression matches all but the line terminators.\<close>

definition is_ws :: "nat \<Rightarrow> bool" where
  "is_ws c = (c \<in> {9, 10, 11, 12, 13, 32, 160, 5760, 8232, 8233, 8239, 8287, 12288, 65279}
              \<or> (8192 \<le> c \<and> c \<le> 8202))"

definition is_line_end :: "nat \<Rightarrow> bool" where
  "is_line_end c = (c \<in> {10, 13, 8232, 8233})"

definition utrim :: "ustring \<Rightarrow> ustring" where
  "utrim s = rev (dropWhile is_ws (rev (dropWhile is_ws s)))"

text \<open>Matching a pattern of lower-case letters and signs under the flag \<open>i\<close>: a letter
  matches itself and its capital; no code unit from 128 on matches an ASCII letter.\<close>

definition ci_char :: "nat \<Rightarrow> nat \<Rightarrow> bool" where
  "ci_char p c = (c = p \<or> (97 \<le> p \<and> p \<le> 122 \<and> c + 32 = p))"

fun ci_prefix :: "ustring \<Rightarrow> ustring \<Rightarrow> bool" where
  "ci_prefix s [] = True"
| "ci_prefix [] (p # ps) = False"
| "ci_prefix (c # cs) (p # ps) = (ci_char p c \<and> ci_prefix cs ps)"

text \<open>The index of the first occurrence of a pattern, if any.\<close>

fun find_ci :: "ustring \<Rightarrow> ustring \<Rightarrow> nat option" where
  "find_ci pat [] = (if pat = [] then Some 0 else None)"
| "find_ci pat (c # cs) =
     (if ci_prefix (c # cs) pat then Some 0 else map_option Suc (find_ci pat cs))"

text \<open>
  \<open>s.replace(re, replacement)\<close> with the flag \<open>g\<close>. A matcher stands for one regular
  expression: given the code unit before the current position (none at the start of
  the text) and the text from the current position on, it gives the length of the match
  that starts here and the text that replaces it, or nothing when the expression does
  not match here. \<open>gsub\<close> scans from the left: a match is replaced and the scan resumes
  after it (\<open>k\<close> counts the code units of the match still to skip); otherwise the code
  unit is copied. None of the expressions below matches the empty text.
\<close>

type_synonym matcher = "nat option \<Rightarrow> ustring \<Rightarrow> (nat \<times> ustring) option"

fun gsub :: "matcher \<Rightarrow> nat option \<Rightarrow> nat \<Rightarrow> ustring \<Rightarrow> ustring" where
  "gsub m prev k [] = []"
| "gsub m prev (Suc k) (c # cs) = gsub m (Some c) k cs"
| "gsub m prev 0 (c # cs) =
     (case m prev (c # cs) of
        None \<Rightarrow> c # gsub m (Some c) 0 cs
      | Some (n, rep) \<Rightarrow>
          rep @ (if n = 0 then c # gsub m (Some c) 0 cs else gsub m (Some c) (n - 1) cs))"

definition replace_all :: "matcher \<Rightarrow> ustring \<Rightarrow> ustring" where
  "replace_all m s = gsub m None 0 s"

text \<open>\<open>^\<close> under the flag \<open>m\<close>: the start of the text or the position after a line
  terminator.\<close>

definition line_start :: "nat option \<Rightarrow> bool" where
  "line_start prev = (case prev of None \<Rightarrow> True | Some c \<Rightarrow> is_line_end c)"

text \<open>\<^verbatim>\<open>/<tag>[\s\S]*?<\/tag>/gi\<close>: the opening tag, then up to the first closing tag.\<close>

definition tag_block :: "string \<Rightarrow> matcher" where
  "tag_block tag prev s =
     (let opening = ustr (''<'' @ tag @ ''>''); closing = ustr (''</'' @ tag @ ''>'')
      in if ci_prefix s opening then
           (case find_ci closing (drop (length opening) s) of
              None \<Rightarrow> None
            | Some j \<Rightarrow> Some (length opening + j + length closing, []))
         else None)"

text \<open>\<^verbatim>\<open>/^[Tt]hinking:[\s\S]*?\n\n/gm\<close> and its two siblings: at a line start, the word
  with either first letter, then up to the first empty line.\<close>

definition debug_block :: "char \<Rightarrow> char \<Rightarrow> string \<Rightarrow> matcher" where
  "debug_block upper lower word prev s =
     (case s of
        [] \<Rightarrow> None
      | c # cs \<Rightarrow>
          if line_start prev \<and> (c = of_char upper \<or> c = of_char lower) \<and> starts_with cs (ustr word)
          then (case find_ci [10, 10] (drop (length word) cs) of
                  None \<Rightarrow> None
                | Some j \<Rightarrow> Some (1 + length word + j + 2, []))
          else None)"

text \<open>\<^verbatim>\<open>/\*\*(.*?)\*\*/g\<close> and its siblings, replaced by \<open>$1\<close>: the delimiter, the
  shortest text without a line terminator, the delimiter.\<close>

fun lazy_until :: "ustring \<Rightarrow> ustring \<Rightarrow> nat option" where
  "lazy_until d [] = (if d = [] then Some 0 else None)"
| "lazy_until d (c # cs) =
     (if starts_with (c # cs) d then Some 0
      else if is_line_end c then None
      else map_option Suc (lazy_until d cs))"

definition delimited :: "string \<Rightarrow> matcher" where
  "delimited delim prev s =
     (let d = ustr delim
      in if starts_with s d then
           (case lazy_until d (drop (length d) s) of
              None \<Rightarrow> None
            | Some j \<Rightarrow> Some (2 * length d + j, take j (drop (length d) s)))
         else None)"

text \<open>\<^verbatim>\<open>/#{1,6}\s*/g\<close>\<close>

definition headers :: matcher where
  "headers prev s =
     (let k = length (takeWhile (\<lambda>c. c = 35) (take 6 s))
      in if k = 0 then None
         else Some (k + length (takeWhile is_ws (drop k s)), []))"

text \<open>\<^verbatim>\<open>/^\s*[-*+]\s*/gm\<close> and \<^verbatim>\<open>/^\s*\d+\.\s*/gm\<close>, replaced by a bullet and a
  space.\<close>

definition bullet :: ustring where
  "bullet = [8226, 32]"

definition list_items :: matcher where
  "list_items prev s =
     (if line_start prev then
        (case dropWhile is_ws s of
           [] \<Rightarrow> None
         | c # cs \<Rightarrow>
             if c \<in> {45, 42, 43}
             then Some (length (takeWhile is_ws s) + 1 + length (takeWhile is_ws cs), bullet)
             else None)
      else None)"

definition is_udigit :: "nat \<Rightarrow> bool" where
  "is_udigit c = (48 \<le> c \<and> c \<le> 57)"

definition numbered_items :: matcher where
  "numbered_items prev s =
     (if line_start prev then
        (let r = dropWhile is_ws s; ds = takeWhile is_udigit r
         in if ds = [] then None
            else (case dropWhile is_udigit r of
                    [] \<Rightarrow> None
                  | c # cs \<Rightarrow>
                      if c = 46
                      then Some (length (takeWhile is_ws s) + length ds + 1
                                 + length (takeWhile is_ws cs), bullet)
                      else None))
      else None)"

text \<open>\<^verbatim>\<open>/\n{3,}/g\<close>, replaced by two line feeds.\<close>

definition newline_runs :: matcher where
  "newline_runs prev s =
     (let k = length (takeWhile (\<lambda>c. c = 10) s)
      in if 3 \<le> k then Some (k, [10, 10]) else None)"

text \<open>\<^verbatim>\<open>/^\s+|\s+$/g\<close> (no flag \<open>m\<close>): white space at the start of the text, or white
  space that runs to its end.\<close>

definition edge_space :: matcher where
  "edge_space prev s =
     (let k = length (takeWhile is_ws s)
      in if k = 0 then None
         else if prev = None then Some (k, [])
         else if drop k s = [] then Some (k, [])
         else None)"

text \<open>\<open>cleaned.split(/[.!?]+/)\<close>: the pieces between the runs of sentence marks;
  \<open>cur\<close> is the piece being read, reversed, and \<open>in_run\<close> tells that the last code unit
  read was a sentence mark.\<close>

definition is_sentence_end :: "nat \<Rightarrow> bool" where
  "is_sentence_end c = (c \<in> {46, 33, 63})"

fun split_sentences :: "ustring \<Rightarrow> bool \<Rightarrow> ustring \<Rightarrow> ustring list" where
  "split_sentences cur in_run [] = [rev cur]"
| "split_sentences cur in_run (c # cs) =
     (if is_sentence_end c then
        (if in_run then split_sentences cur True cs
         else rev cur # split_sentences [] True cs)
      else split_sentences (c # cur) False cs)"

text \<open>The loop over the sentences, with its \<open>break\<close>.\<close>

fun truncate_loop :: "ustring \<Rightarrow> ustring list \<Rightarrow> ustring" where
  "truncate_loop result [] = result"
| "truncate_loop result (sentence # rest) =
     (if length (result @ sentence) > 800 then result
      else truncate_loop (result @ utrim sentence @ ustr ''. '') rest)"

text \<open>The canned reply.\<close>

definition fallback :: ustring where
  "fallback = ustr (''I'' @ [CHR 0x27] @ ''d be happy to help with your question! Could you provide more details so I can give you better advice?'')"

text \<open>The sixteen replacements, in the order of the source.\<close>

definition strip_markup :: "ustring \<Rightarrow> ustring" where
  "strip_markup s =
     (let c1 = replace_all (tag_block ''think'') s;
          c2 = replace_all (tag_block ''debug'') c1;
          c3 = replace_all (tag_block ''reasoning'') c2;
          c4 = replace_all (tag_block ''analysis'') c3;
          c5 = replace_all (debug_block CHR ''T'' CHR ''t'' ''hinking:'') c4;
          c6 = replace_all (debug_block CHR ''D'' CHR ''d'' ''ebug:'') c5;
          c7 = replace_all (debug_block CHR ''A'' CHR ''a'' ''nalysis:'') c6;
          c8 = replace_all (delimited ''**'') c7;
          c9 = replace_all (delimited ''*'') c8;
          c10 = replace_all (delimited ''__'') c9;
          c11 = replace_all (delimited ''`'') c10;
          c12 = replace_all headers c11;
          c13 = replace_all list_items c12;
          c14 = replace_all numbered_items c13;
          c15 = replace_all newline_runs c14
      in replace_all edge_space c15)"

text \<open>The function. The argument is \<open>None\<close> when the value passed is not a string.\<close>

definition cleanAIResponse :: "ustring option \<Rightarrow> ustring" where
  "cleanAIResponse rawResponse =
     (case rawResponse of
        None \<Rightarrow> fallback
      | Some raw \<Rightarrow>
          if raw = [] then fallback
          else
            (let cleaned = strip_markup (utrim raw)
             in if cleaned = [] \<or> length cleaned < 10 then fallback
                else if length cleaned > 1000
                then utrim (truncate_loop [] (split_sentences [] False cleaned))
                else cleaned))"

section \<open>The game score (src/controllers/gameController.ts)\<close>

text \<open>The table \<open>game_scores\<close>, a list of rows in the order a SELECT returns them, and
  the schedule of faults of the calls to come: opening the connection, each query, and
  closing the connection each take one entry (\<open>True\<close>: the call raises).\<close>

record score_row =
  score_user :: string
  score :: int

record game_store =
  game_scores :: "score_row list"
  game_faults :: "bool list"

definition game_raises :: "game_store \<Rightarrow> bool \<times> game_store" where
  "game_raises db =
     (case game_faults db of [] \<Rightarrow> (False, db) | f # fs \<Rightarrow> (f, db\<lparr>game_faults := fs\<rparr>))"

text \<open>\<open>SELECT score FROM game_scores WHERE user_id = $1\<close>\<close>

definition sql_select_scores :: "string \<Rightarrow> game_store \<Rightarrow> (exn + score_row list) \<times> game_store" where
  "sql_select_scores userId db =
     (case game_raises db of
        (True, db1) \<Rightarrow> (Inl DbError, db1)
      | (False, db1) \<Rightarrow> (Inr (filter (\<lambda>r. score_user r = userId) (game_scores db1)), db1))"

text \<open>\<open>UPDATE game_scores SET score = $1, updated_at = NOW() WHERE user_id = $2\<close>\<close>

definition sql_update_score :: "int \<Rightarrow> string \<Rightarrow> game_store \<Rightarrow> (exn + unit) \<times> game_store" where
  "sql_update_score s userId db =
     (case game_raises db of
        (True, db1) \<Rightarrow> (Inl DbError, db1)
      | (False, db1) \<Rightarrow>
          (Inr (), db1\<lparr>game_scores :=
             map (\<lambda>r. if score_user r = userId then r\<lparr>score := s\<rparr> else r) (game_scores db1)\<rparr>))"

text \<open>\<open>INSERT INTO game_scores (user_id, score) VALUES ($1, $2)\<close>\<close>

definition sql_insert_score :: "string \<Rightarrow> int \<Rightarrow> game_store \<Rightarrow> (exn + unit) \<times> game_store" where
  "sql_insert_score userId s db =
     (case game_raises db of
        (True, db1) \<Rightarrow> (Inl DbError, db1)
      | (False, db1) \<Rightarrow>
          (Inr (), db1\<lparr>game_scores := game_scores db1 @ [\<lparr>score_user = userId, score = s\<rparr>]\<rparr>))"

text \<open>The response: 400 with the validation error, 200 with \<open>success: true\<close> and the
  submitted score, or 500.\<close>

datatype game_response = BadRequest | Saved int | ServerError

text \<open>The queries of the \<open>try\<close> block, once the score is validated and the connection
  is open. An exception of a query is caught by the handler, which answers 500.\<close>

definition save_try :: "string \<Rightarrow> int \<Rightarrow> game_store \<Rightarrow> game_response \<times> game_store" where
  "save_try userId s db =
     (case sql_select_scores userId db of
        (Inl err, db1) \<Rightarrow> (ServerError, db1)
      | (Inr [], db1) \<Rightarrow>
          (case sql_insert_score userId s db1 of
             (Inl err, db2) \<Rightarrow> (ServerError, db2)
           | (Inr u, db2) \<Rightarrow> (Saved s, db2))
      | (Inr (r # rs), db1) \<Rightarrow>
          (if s > score r then
             (case sql_update_score s userId db1 of
                (Inl err, db2) \<Rightarrow> (ServerError, db2)
              | (Inr u, db2) \<Rightarrow> (Saved s, db2))
           else (Saved s, db1)))"

text \<open>The handler. The score of the request body must be a number that is not negative.
  When opening the connection raises, \<open>sql\<close> is still null and nothing is closed;
  otherwise \<open>finally\<close> closes the connection, and an error of closing is only logged.\<close>

definition saveGameHighScore :: "string \<Rightarrow> jsval \<Rightarrow> game_store \<Rightarrow> game_response \<times> game_store" where
  "saveGameHighScore userId body_score db =
     (case body_score of
        JNum s \<Rightarrow>
          (if s < 0 then (BadRequest, db)
           else
             (case game_raises db of
                (True, db1) \<Rightarrow> (ServerError, db1)
              | (False, db1) \<Rightarrow>
                  (case save_try userId s db1 of
                     (res, db2) \<Rightarrow> (res, snd (game_raises db2)))))
      | _ \<Rightarrow> (BadRequest, db))"

text \<open>The stored score of a user, as the handlers read it: the score of the first row
  selected for the user, if there is one.\<close>

definition stored_score :: "game_store \<Rightarrow> string \<Rightarrow> int option" where
  "stored_score db userId =
     (case filter (\<lambda>r. score_user r = userId) (game_scores db) of
        [] \<Rightarrow> None
      | r # rs \<Rightarrow> Some (score r))"

section \<open>The AI controller (src/controllers/aiController.ts)\<close>

subsection \<open>Extraction of the JSON array\<close>

text \<open>\<open>aiResponse.match(/\[[\s\S]*\]/)\<close>: the match starts at the first \<open>[\<close> that has a
  \<open>]\<close> after it, and the star is greedy, so it ends at the last \<open>]\<close> of the text.\<close>

definition match_array :: "string \<Rightarrow> string option" where
  "match_array s =
     (case dropWhile (\<lambda>c. c \<noteq> CHR ''['') s of
        [] \<Rightarrow> None
      | b # rest \<Rightarrow>
          (if CHR '']'' \<in> set rest
           then Some (b # rev (dropWhile (\<lambda>c. c \<noteq> CHR '']'') (rev rest)))
           else None))"

text \<open>The primary extraction of the handlers: the match, or the error "No valid JSON
  found"; then \<open>JSON.parse\<close> of the matched text, a parameter here.\<close>

definition primary_extraction :: "(string \<Rightarrow> exn + 'j) \<Rightarrow> string \<Rightarrow> exn + 'j" where
  "primary_extraction JSON_parse aiResponse =
     (case match_array aiResponse of
        None \<Rightarrow> Inl (Error ''No valid JSON found in AI response'')
      | Some jsonMatch \<Rightarrow> JSON_parse jsonMatch)"

text \<open>The specification's reading, for comparison: the first balanced top-level array,
  from the first \<open>[\<close> to the \<open>]\<close> that closes it, counting nested brackets.\<close>

fun closing_bracket :: "nat \<Rightarrow> string \<Rightarrow> string option" where
  "closing_bracket depth [] = None"
| "closing_bracket depth (c # cs) =
     (if c = CHR ''['' then map_option (Cons c) (closing_bracket (Suc depth) cs)
      else if c = CHR '']'' then
        (case depth of
           0 \<Rightarrow> Some [c]
         | Suc d \<Rightarrow> map_option (Cons c) (closing_bracket d cs))
      else map_option (Cons c) (closing_bracket depth cs))"

definition spec_first_balanced_array :: "string \<Rightarrow> string option" where
  "spec_first_balanced_array s =
     (case dropWhile (\<lambda>c. c \<noteq> CHR ''['') s of
        [] \<Rightarrow> None
      | b # rest \<Rightarrow> map_option (Cons b) (closing_bracket 0 rest))"

subsection \<open>Validation of the extracted tasks (extractTasksFromVoice)\<close>

definition is_digit :: "char \<Rightarrow> bool" where
  "is_digit c = (c \<in> set ''0123456789'')"

text \<open>\<open>parseInt\<close> of a string of decimal digits.\<close>

definition digits_value :: "string \<Rightarrow> nat" where
  "digits_value ds = foldl (\<lambda>acc c. 10 * acc + (of_char c - 48)) 0 ds"

text \<open>\<open>n.toString().padStart(2, '0')\<close>\<close>

definition pad2 :: "nat \<Rightarrow> string" where
  "pad2 n = (let s = show_nat n in if length s < 2 then CHR ''0'' # s else s)"

text \<open>\<^verbatim>\<open>/^([0-1]?[0-9]|2[0-3]):([0-5][0-9])$/\<close>\<close>

definition timeRegex :: "string \<Rightarrow> bool" where
  "timeRegex s =
     (case s of
        [h, c, m1, m2] \<Rightarrow> is_digit h \<and> c = CHR '':'' \<and> m1 \<in> set ''012345'' \<and> is_digit m2
      | [h1, h2, c, m1, m2] \<Rightarrow>
          ((h1 \<in> set ''01'' \<and> is_digit h2) \<or> (h1 = CHR ''2'' \<and> h2 \<in> set ''0123''))
          \<and> c = CHR '':'' \<and> m1 \<in> set ''012345'' \<and> is_digit m2
      | _ \<Rightarrow> False)"

text \<open>
  \<open>parseTimeString\<close> (src/utils/ai.ts) tries three expressions on the lower-cased,
  trimmed text: \<^verbatim>\<open>/^(\d{1,2})(?::(\d{2}))?\s*(am|pm)$/i\<close>,
  \<^verbatim>\<open>/^(\d{1,2}):(\d{2})$/\<close> and \<^verbatim>\<open>/^(\d{1,2})$/\<close>. All three start with the
  leading run of digits \<open>hh\<close>, which must be one or two long; \<open>mm\<close> is the optional
  group of a colon and two digits.
\<close>

definition parseTimeString :: "string \<Rightarrow> string option" where
  "parseTimeString timeStr =
     (let cleaned = trim (toLowerCase timeStr);
          hh = takeWhile is_digit cleaned;
          rest = dropWhile is_digit cleaned;
          mm = (case rest of c # m1 # m2 # r \<Rightarrow>
                  if c = CHR '':'' \<and> is_digit m1 \<and> is_digit m2 then Some [m1, m2] else None
                | _ \<Rightarrow> None);
          after_mm = (case mm of Some m \<Rightarrow> drop 3 rest | None \<Rightarrow> rest);
          ampm = dropWhile is_space after_mm
      in if length hh \<noteq> 1 \<and> length hh \<noteq> 2 then None
         else if ampm = ''am'' \<or> ampm = ''pm'' then
           (let hours = digits_value hh;
                minutes = (case mm of Some m \<Rightarrow> digits_value m | None \<Rightarrow> 0);
                hours1 = (if ampm = ''pm'' \<and> hours \<noteq> 12 then hours + 12 else hours);
                hours2 = (if ampm = ''am'' \<and> hours1 = 12 then 0 else hours1)
            in Some (pad2 hours2 @ '':'' @ pad2 minutes))
         else
           (case mm of
              Some m \<Rightarrow>
                if after_mm = [] \<and> digits_value hh \<le> 23 \<and> digits_value m \<le> 59
                then Some (pad2 (digits_value hh) @ '':'' @ pad2 (digits_value m)) else None
            | None \<Rightarrow>
                if rest = [] \<and> digits_value hh \<le> 23
                then Some (pad2 (digits_value hh) @ '':00'') else None))"

text \<open>An element of the parsed array, and a task of the response.\<close>

record voice_raw =
  raw_title :: jsval
  raw_duration :: jsval
  raw_importance :: jsval
  raw_scheduledTime :: jsval
  raw_notes :: jsval

record voice_task =
  vt_title :: string
  vt_duration :: int
  vt_importance :: jsval
  vt_scheduledTime :: "string option"
  vt_notes :: "string option"

definition isValid :: "voice_raw \<Rightarrow> bool" where
  "isValid task =
     ((case raw_title task of JStr s \<Rightarrow> s \<noteq> [] \<and> length (trim s) > 0 | _ \<Rightarrow> False)
      \<and> (case raw_duration task of JNum n \<Rightarrow> n \<noteq> 0 \<and> n > 0 | _ \<Rightarrow> False))"

text \<open>\<open>extractedTasks.filter(...)\<close>; reading \<open>task.title\<close> of a null element raises.\<close>

fun filter_valid :: "voice_raw option list \<Rightarrow> exn + voice_raw list" where
  "filter_valid [] = Inr []"
| "filter_valid (None # ts) = Inl TypeError"
| "filter_valid (Some t # ts) =
     (case filter_valid ts of
        Inl e \<Rightarrow> Inl e
      | Inr ks \<Rightarrow> Inr (if isValid t then t # ks else ks))"

text \<open>The time of the mapped task: \<open>null\<close> unless the given value, as a trimmed
  string (\<open>task.scheduledTime.toString().trim()\<close>), is a time or can be parsed as one.\<close>

definition normalize_time :: "jsval \<Rightarrow> exn + string option" where
  "normalize_time v =
     (if truthy v then
        (case js_to_string v of
           Inl e \<Rightarrow> Inl e
         | Inr str \<Rightarrow>
             (let timeStr = trim str
              in if timeRegex timeStr then Inr (Some timeStr)
                 else Inr (parseTimeString timeStr)))
      else Inr None)"

text \<open>The callback of \<open>map\<close>. \<open>task.title.trim()\<close> and \<open>task.notes.trim()\<close> raise on a
  value that is not a string; the duration is a number for every task the filter
  keeps.\<close>

definition clean_task :: "voice_raw \<Rightarrow> exn + voice_task" where
  "clean_task task =
     (case normalize_time (raw_scheduledTime task) of
        Inl e \<Rightarrow> Inl e
      | Inr scheduledTime \<Rightarrow>
          (case (raw_title task, raw_duration task) of
             (JStr title, JNum duration) \<Rightarrow>
               (if truthy (raw_notes task) then
                  (case raw_notes task of
                     JStr notes \<Rightarrow>
                       Inr \<lparr>vt_title = trim title, vt_duration = min (max duration 5) 480,
                            vt_importance =
                              (if raw_importance task
                                    \<in> set [JStr ''low'', JStr ''medium'', JStr ''high'']
                               then raw_importance task else JStr ''medium''),
                            vt_scheduledTime = scheduledTime, vt_notes = Some (trim notes)\<rparr>
                   | other \<Rightarrow> Inl TypeError)
                else
                  Inr \<lparr>vt_title = trim title, vt_duration = min (max duration 5) 480,
                       vt_importance =
                         (if raw_importance task
                               \<in> set [JStr ''low'', JStr ''medium'', JStr ''high'']
                          then raw_importance task else JStr ''medium''),
                       vt_scheduledTime = scheduledTime, vt_notes = None\<rparr>)
           | other \<Rightarrow> Inl TypeError))"

fun map_clean :: "voice_raw list \<Rightarrow> exn + voice_task list" where
  "map_clean [] = Inr []"
| "map_clean (t # ts) =
     (case clean_task t of
        Inl e \<Rightarrow> Inl e
      | Inr c \<Rightarrow> (case map_clean ts of Inl e \<Rightarrow> Inl e | Inr cs \<Rightarrow> Inr (c # cs)))"

definition validTasks :: "voice_raw option list \<Rightarrow> exn + voice_task list" where
  "validTasks extractedTasks =
     (case filter_valid extractedTasks of
        Inl e \<Rightarrow> Inl e
      | Inr ks \<Rightarrow> map_clean ks)"

section \<open>Properties of the task alignment\<close>

lemmas store_defs = query_raises_def sql_insert_task_def sql_delete_task_def sql_update_set_def
  sql_update_coalesce_def targets_def set_columns_def coalesce_columns_def coalesce_def

lemmas align_defs = alignTasksWithPlan_def align_block_def add_task_def add_task_try_def
  delete_task_def delete_task_try_def rescue_delete_def modify_task_def modify_task_try_def
  rescue_modify_def template_raises_def deleted_title_def create_shaped_def delete_shaped_def modify_shaped_def invalid_title_def
  invalid_duration_def push_conflict_def push_deleted_def push_modified_def empty_result_def
  js_or_def

lemmas string_defs = toLowerCase_def lower_char_def char_of_def bit_Suc_0_iff trim_def
  is_space_def

lemma trim_blank: "list_all is_space s \<Longrightarrow> trim s = []"
proof -
  assume "list_all is_space s"
  then have d: "dropWhile is_space s = []"
    by (induction s) auto
  show ?thesis unfolding trim_def d by simp
qed


lemma shaped_disjoint:
  "create_shaped t \<Longrightarrow> \<not> delete_shaped t \<and> \<not> modify_shaped t"
  "delete_shaped t \<Longrightarrow> \<not> create_shaped t \<and> \<not> modify_shaped t"
  "modify_shaped t \<Longrightarrow> \<not> create_shaped t \<and> \<not> delete_shaped t"
  by (auto simp: delete_shaped_def create_shaped_def modify_shaped_def)

text \<open>A batch of one operation runs the body of the one loop whose filter keeps it.\<close>

lemma batch_one_create:
  "create_shaped t \<Longrightarrow> alignTasksWithPlan db uid [Some t] ex =
     (Returned (snd (snd (add_task uid ex t (db, empty_result)))),
      fst (snd (add_task uid ex t (db, empty_result))))"
  using shaped_disjoint(1)[of t]
  by (simp add: alignTasksWithPlan_def align_block_def split: prod.splits option.splits)

lemma batch_one_delete:
  "delete_shaped t \<Longrightarrow> alignTasksWithPlan db uid [Some t] ex =
     (Returned (snd (snd (delete_task uid ex t (db, empty_result)))),
      fst (snd (delete_task uid ex t (db, empty_result))))"
  using shaped_disjoint(2)[of t]
  by (simp add: alignTasksWithPlan_def align_block_def split: prod.splits option.splits)

lemma batch_one_modify:
  "modify_shaped t \<Longrightarrow> alignTasksWithPlan db uid [Some t] ex =
     (Returned (snd (snd (modify_task uid ex t (db, empty_result)))),
      fst (snd (modify_task uid ex t (db, empty_result))))"
  using shaped_disjoint(3)[of t]
  by (simp add: alignTasksWithPlan_def align_block_def split: prod.splits option.splits)

subsection \<open>Operations no filter keeps\<close>

text \<open>
  C1. The claim: every operation of the batch is accounted for in the result, and an
  operation whose action is none of the recognised values, or that has an id and no
  action, is recorded as a conflict. The three filters keep neither kind, so no loop
  sees them: a batch of one operation with the action \<open>archive\<close> and one with an id
  and no action returns the empty result and leaves the store as it was.
\<close>

theorem unrecognised_operations_are_dropped:
  "alignTasksWithPlan db userId
     [Some \<lparr>op_id = JStr ''123e4567-e89b-12d3-a456-426614174000'', op_action = JStr ''archive'',
            op_title = JStr ''Workout'', op_duration = JUndefined, op_importance = JUndefined,
            op_status = JUndefined, op_scheduledTime = JUndefined\<rparr>,
      Some \<lparr>op_id = JStr ''123e4567-e89b-12d3-a456-426614174000'', op_action = JUndefined,
            op_title = JStr ''Workout'', op_duration = JNum 30, op_importance = JUndefined,
            op_status = JUndefined, op_scheduledTime = JUndefined\<rparr>]
     existingTasks
   = (Returned \<lparr>insertedTasks = [], modifiedTasks = [], deletedTasks = [], conflicts = []\<rparr>, db)"
  by (simp add: align_defs)

subsection \<open>The field merge of a modify\<close>

text \<open>
  C2. The claim: a modify with a well-formed id keeps every field the operation leaves
  unset, scheduledTime included. The UPDATE of the direct path merges four columns with
  COALESCE and assigns \<open>scheduled_time = $5\<close>, where \<open>$5\<close> is
  \<open>task.scheduledTime || null\<close>: the operation \<open>{id, action: "modify", status: "done"}\<close>
  on a task scheduled at 09:00 sets the status and clears the scheduled time.
\<close>

theorem modify_clears_unset_scheduledTime:
  "alignTasksWithPlan
     \<lparr>tasks = [\<lparr>row_id = JStr ''123e4567-e89b-12d3-a456-426614174000'', row_user = ''u1'',
                 row_title = JStr ''Draft report'', row_duration_minutes = JNum 60,
                 row_importance = JStr ''high'', row_status = JStr ''todo'',
                 row_scheduled_time = JStr ''09:00''\<rparr>],
       faults = [], fresh = ids, issued = 0\<rparr>
     ''u1''
     [Some \<lparr>op_id = JStr ''123e4567-e89b-12d3-a456-426614174000'', op_action = JStr ''modify'',
            op_title = JUndefined, op_duration = JUndefined, op_importance = JUndefined,
            op_status = JStr ''done'', op_scheduledTime = JUndefined\<rparr>]
     existingTasks
   = (Returned
        \<lparr>insertedTasks = [],
         modifiedTasks = [\<lparr>mod_id = JStr ''123e4567-e89b-12d3-a456-426614174000'',
                           mod_title = JStr ''Draft report'', mod_originalTitle = None\<rparr>],
         deletedTasks = [], conflicts = []\<rparr>,
      \<lparr>tasks = [\<lparr>row_id = JStr ''123e4567-e89b-12d3-a456-426614174000'', row_user = ''u1'',
                 row_title = JStr ''Draft report'', row_duration_minutes = JNum 60,
                 row_importance = JStr ''high'', row_status = JStr ''done'',
                 row_scheduled_time = JNull\<rparr>],
       faults = [], fresh = ids, issued = 0\<rparr>)"
  by (simp add: align_defs store_defs uuid_shape_def is_hex_def)

text \<open>What the direct path writes in general: a row of the user with the given id keeps
  its title, duration, importance and status where the operation gives no truthy
  value, and takes the operation's value otherwise; its scheduled time becomes the
  operation's value, or NULL.\<close>

lemma direct_modify_table:
  assumes "isValidUUID (op_id t)" and "faults db = [] \<or> hd (faults db) = False"
  shows "tasks (fst (snd (modify_task userId existingTasks t (db, res))))
         = map (\<lambda>r. if row_id r = op_id t \<and> row_user r = userId
                     then r\<lparr>row_title := js_or (op_title t) (row_title r),
                           row_duration_minutes := js_or (op_duration t) (row_duration_minutes r),
                           row_importance := js_or (op_importance t) (row_importance r),
                           row_status := js_or (op_status t) (row_status r),
                           row_scheduled_time := js_or (op_scheduledTime t) JNull\<rparr>
                     else r) (tasks db)"
proof -
  have q: "query_raises db = (False, db\<lparr>faults := tl (faults db)\<rparr>)"
    using assms(2) by (cases "faults db") (auto simp: query_raises_def)
  have v: "truthy (op_id t)"
    using assms(1) by (cases "op_id t") auto
  have c: "coalesce (js_or x JNull) y = js_or x y" for x y
    by (cases x) (auto simp: coalesce_def js_or_def)
  show ?thesis
    using assms(1) v q
    by (auto simp: modify_task_def modify_task_try_def sql_update_coalesce_def targets_def
        coalesce_columns_def c split: list.splits)
qed

subsection \<open>The rescue of a delete by title\<close>

lemma find_by_title_first:
  assumes "list_all (\<lambda>e. \<exists>et. row_title e = JStr et \<and> toLowerCase et \<noteq> toLowerCase pt) pre"
    and "row_title m = JStr mt" and "toLowerCase mt = toLowerCase pt"
  shows "find_by_title (JStr pt) (pre @ m # post) = Inr (Some m)"
  using assms by (induction pre) (auto simp: js_or_def)

text \<open>
  C3, as stated: a delete whose id fails the format check and whose title equals, up to
  case, the title of an existing task with a well-formed id deletes that task. The
  lookup is \<open>find\<close>, which stops at the first row with that title. Here two rows are
  titled Workout, the first with the id 42 (the source's \<open>Task\<close> interface declares
  \<open>id: number\<close>) and the second with a well-formed one: nothing is deleted, and the only
  record is the conflict.
\<close>

theorem rescue_delete_first_match_counterexample:
  "delete_shaped \<lparr>op_id = JStr ''not-a-uuid'', op_action = JStr ''delete'',
         op_title = JStr ''workout'', op_duration = JUndefined, op_importance = JUndefined,
         op_status = JUndefined, op_scheduledTime = JUndefined\<rparr>
   \<and> \<not> isValidUUID (JStr ''not-a-uuid'')
   \<and> isValidUUID (JStr ''123e4567-e89b-12d3-a456-426614174000'')
   \<and> toLowerCase ''Workout'' = toLowerCase ''workout''
   \<and> alignTasksWithPlan
       \<lparr>tasks = [\<lparr>row_id = JStr ''123e4567-e89b-12d3-a456-426614174000'', row_user = ''u1'',
                   row_title = JStr ''Workout'', row_duration_minutes = JNum 45,
                   row_importance = JStr ''medium'', row_status = JStr ''todo'',
                   row_scheduled_time = JNull\<rparr>],
         faults = [], fresh = (\<lambda>n. ''00000000-0000-4000-8000-000000000000''), issued = 0\<rparr>
       ''u1''
       [Some \<lparr>op_id = JStr ''not-a-uuid'', op_action = JStr ''delete'',
              op_title = JStr ''workout'', op_duration = JUndefined, op_importance = JUndefined,
              op_status = JUndefined, op_scheduledTime = JUndefined\<rparr>]
       [\<lparr>row_id = JNum 42, row_user = ''u1'',
          row_title = JStr ''Workout'', row_duration_minutes = JNum 20,
          row_importance = JStr ''low'', row_status = JStr ''todo'',
          row_scheduled_time = JNull\<rparr>,
        \<lparr>row_id = JStr ''123e4567-e89b-12d3-a456-426614174000'', row_user = ''u1'',
          row_title = JStr ''Workout'', row_duration_minutes = JNum 45,
          row_importance = JStr ''medium'', row_status = JStr ''todo'',
          row_scheduled_time = JNull\<rparr>]
     = (Returned \<lparr>insertedTasks = [], modifiedTasks = [], deletedTasks = [],
                  conflicts = [DeleteInvalidUUID (JStr ''not-a-uuid'')]\<rparr>,
        \<lparr>tasks = [\<lparr>row_id = JStr ''123e4567-e89b-12d3-a456-426614174000'', row_user = ''u1'',
                   row_title = JStr ''Workout'', row_duration_minutes = JNum 45,
                   row_importance = JStr ''medium'', row_status = JStr ''todo'',
                   row_scheduled_time = JNull\<rparr>],
         faults = [], fresh = (\<lambda>n. ''00000000-0000-4000-8000-000000000000''), issued = 0\<rparr>)"
  by (simp add: align_defs store_defs uuid_shape_def is_hex_def string_defs)

text \<open>
  C3, amended: let a delete-shaped operation carry an id that is present, fails the
  format check and can be printed (its conversion to a string does not raise). If the
  first existing task whose title equals the proposed title up to
  case has a well-formed id, and the DELETE does not raise, then the loop body records
  the invalid-format conflict, deletes the rows with that task's id for the user, and
  appends that task, with its own id, to \<open>deletedTasks\<close>. The same is stated for the
  whole function on the batch of that one operation.
\<close>

theorem rescue_delete_by_title:
  assumes "delete_shaped t" and "truthy (op_id t)" and "\<not> isValidUUID (op_id t)"
    and "\<not> template_raises (op_id t)"
    and "op_title t = JStr pt"
    and "existingTasks = pre @ m # post"
    and "list_all (\<lambda>e. \<exists>et. row_title e = JStr et \<and> toLowerCase et \<noteq> toLowerCase pt) pre"
    and "row_title m = JStr mt" and "toLowerCase mt = toLowerCase pt"
    and "isValidUUID (row_id m)"
    and "faults db = [] \<or> hd (faults db) = False"
  shows "delete_task userId existingTasks t (db, res) =
           (None, db\<lparr>faults := tl (faults db),
               tasks := filter (\<lambda>r. \<not> (row_id r = row_id m \<and> row_user r = userId)) (tasks db)\<rparr>,
            res\<lparr>conflicts := conflicts res @ [DeleteInvalidUUID (op_id t)],
                deletedTasks := deletedTasks res @ [DeletedRow m]\<rparr>)
         \<and> alignTasksWithPlan db userId [Some t] existingTasks =
           (Returned \<lparr>insertedTasks = [], modifiedTasks = [], deletedTasks = [DeletedRow m],
                      conflicts = [DeleteInvalidUUID (op_id t)]\<rparr>,
            db\<lparr>faults := tl (faults db),
               tasks := filter (\<lambda>r. \<not> (row_id r = row_id m \<and> row_user r = userId)) (tasks db)\<rparr>)
         \<and> row_id m \<noteq> op_id t"
proof -
  have f: "find_by_title (op_title t) existingTasks = Inr (Some m)"
    using assms(5-9) find_by_title_first by simp
  have q: "query_raises db = (False, db\<lparr>faults := tl (faults db)\<rparr>)"
    using assms(11) by (cases "faults db") (auto simp: query_raises_def)
  have step: "delete_task userId existingTasks t (db, r) =
           (None, db\<lparr>faults := tl (faults db),
               tasks := filter (\<lambda>r. \<not> (row_id r = row_id m \<and> row_user r = userId)) (tasks db)\<rparr>,
            r\<lparr>conflicts := conflicts r @ [DeleteInvalidUUID (op_id t)],
              deletedTasks := deletedTasks r @ [DeletedRow m]\<rparr>)" for r
    using assms(2,3,4,10) f q
    by (simp add: delete_task_def delete_task_try_def rescue_delete_def sql_delete_task_def
        targets_def push_conflict_def push_deleted_def)
  have batch: "alignTasksWithPlan db userId [Some t] existingTasks =
           (Returned \<lparr>insertedTasks = [], modifiedTasks = [], deletedTasks = [DeletedRow m],
                      conflicts = [DeleteInvalidUUID (op_id t)]\<rparr>,
            db\<lparr>faults := tl (faults db),
               tasks := filter (\<lambda>r. \<not> (row_id r = row_id m \<and> row_user r = userId)) (tasks db)\<rparr>)"
    using assms(1) step[of empty_result]
    by (simp add: batch_one_delete empty_result_def)
  have "row_id m \<noteq> op_id t" using assms(3,10) by auto
  with step batch show ?thesis by simp
qed

text \<open>The witness is scenario B of the specification: the task Workout, and a delete
  with the id \<open>not-a-uuid\<close> and the title Workout.\<close>

theorem rescue_delete_by_title_witness:
  "alignTasksWithPlan
       \<lparr>tasks = [\<lparr>row_id = JStr ''123e4567-e89b-12d3-a456-426614174000'', row_user = ''u1'',
                   row_title = JStr ''Workout'', row_duration_minutes = JNum 45,
                   row_importance = JStr ''medium'', row_status = JStr ''todo'',
                   row_scheduled_time = JNull\<rparr>],
         faults = [], fresh = (\<lambda>n. ''00000000-0000-4000-8000-000000000000''), issued = 0\<rparr>
       ''u1''
       [Some \<lparr>op_id = JStr ''not-a-uuid'', op_action = JStr ''delete'',
              op_title = JStr ''Workout'', op_duration = JUndefined, op_importance = JUndefined,
              op_status = JUndefined, op_scheduledTime = JUndefined\<rparr>]
       [\<lparr>row_id = JStr ''123e4567-e89b-12d3-a456-426614174000'', row_user = ''u1'',
          row_title = JStr ''Workout'', row_duration_minutes = JNum 45,
          row_importance = JStr ''medium'', row_status = JStr ''todo'',
          row_scheduled_time = JNull\<rparr>]
     = (Returned
          \<lparr>insertedTasks = [], modifiedTasks = [],
           deletedTasks = [DeletedRow \<lparr>row_id = JStr ''123e4567-e89b-12d3-a456-426614174000'',
              row_user = ''u1'', row_title = JStr ''Workout'', row_duration_minutes = JNum 45,
              row_importance = JStr ''medium'', row_status = JStr ''todo'',
              row_scheduled_time = JNull\<rparr>],
           conflicts = [DeleteInvalidUUID (JStr ''not-a-uuid'')]\<rparr>,
        \<lparr>tasks = [], faults = [],
         fresh = (\<lambda>n. ''00000000-0000-4000-8000-000000000000''), issued = 0\<rparr>)"
  using rescue_delete_by_title
    [of "\<lparr>op_id = JStr ''not-a-uuid'', op_action = JStr ''delete'',
              op_title = JStr ''Workout'', op_duration = JUndefined, op_importance = JUndefined,
              op_status = JUndefined, op_scheduledTime = JUndefined\<rparr>"
        "''Workout''"
        "[\<lparr>row_id = JStr ''123e4567-e89b-12d3-a456-426614174000'', row_user = ''u1'',
          row_title = JStr ''Workout'', row_duration_minutes = JNum 45,
          row_importance = JStr ''medium'', row_status = JStr ''todo'',
          row_scheduled_time = JNull\<rparr>]"
        "[]"
        "\<lparr>row_id = JStr ''123e4567-e89b-12d3-a456-426614174000'', row_user = ''u1'',
          row_title = JStr ''Workout'', row_duration_minutes = JNum 45,
          row_importance = JStr ''medium'', row_status = JStr ''todo'',
          row_scheduled_time = JNull\<rparr>"
        "[]" "''Workout''"
        "\<lparr>tasks = [\<lparr>row_id = JStr ''123e4567-e89b-12d3-a456-426614174000'', row_user = ''u1'',
                   row_title = JStr ''Workout'', row_duration_minutes = JNum 45,
                   row_importance = JStr ''medium'', row_status = JStr ''todo'',
                   row_scheduled_time = JNull\<rparr>],
         faults = [], fresh = (\<lambda>n. ''00000000-0000-4000-8000-000000000000''), issued = 0\<rparr>"
        "''u1''"]
  by (simp add: delete_shaped_def uuid_shape_def is_hex_def template_raises_def)

subsection \<open>Rejected operations and the store\<close>

lemma invalid_create:
  assumes "op_title t = JUndefined \<or> op_title t = JNull
      \<or> (\<exists>s. op_title t = JStr s \<and> list_all is_space s)
      \<or> op_duration t = JUndefined \<or> op_duration t = JNull
      \<or> (\<exists>n. op_duration t = JNum n \<and> n \<le> 0)"
  shows "\<exists>c. \<forall>res. add_task uid ex t (db, res) = (None, db, push_conflict c res)"
proof -
  from assms have "invalid_title t \<or> invalid_duration t"
    by (auto simp: invalid_title_def invalid_duration_def trim_blank split: jsval.splits)
  then show ?thesis
    by (auto simp: add_task_def add_task_try_def)
qed

lemma falsy_printable: "\<not> truthy v \<Longrightarrow> \<not> template_raises v"
  by (cases v) (auto simp: template_raises_def)

text \<open>
  C5. A create-shaped operation whose title is absent, null or made of white space only
  (the empty string included), or whose duration is absent, null or a number that is
  not positive, makes the loop body append one conflict and return the store it was
  given: no query is issued, so neither the table nor the fault schedule moves. The
  same holds for a delete- or modify-shaped operation whose id is absent (or null, or
  empty: not truthy); the conflict is the one for the missing id, or, when the title is
  an object that cannot be printed, the one the handler of the loop body appends. Each
  part is stated for the loop body at any state and for the whole function on the batch
  of that one operation.
\<close>

theorem rejected_operations_touch_no_storage:
  "(create_shaped t \<and>
      (op_title t = JUndefined \<or> op_title t = JNull
       \<or> (\<exists>s. op_title t = JStr s \<and> list_all is_space s)
       \<or> op_duration t = JUndefined \<or> op_duration t = JNull
       \<or> (\<exists>n. op_duration t = JNum n \<and> n \<le> 0))
     \<longrightarrow> (\<exists>c. add_task userId existingTasks t (db, res) = (None, db, push_conflict c res)
            \<and> alignTasksWithPlan db userId [Some t] existingTasks
                = (Returned (push_conflict c empty_result), db)))
   \<and> (delete_shaped t \<and> \<not> truthy (op_id t)
     \<longrightarrow> delete_task userId existingTasks t (db, res)
            = (None, db,
               push_conflict (if template_raises (op_title t) then DeleteFailed (op_id t)
                              else DeleteWithoutID t) res)
        \<and> alignTasksWithPlan db userId [Some t] existingTasks
            = (Returned
                 (push_conflict (if template_raises (op_title t) then DeleteFailed (op_id t)
                                 else DeleteWithoutID t) empty_result), db))
   \<and> (modify_shaped t \<and> \<not> truthy (op_id t)
     \<longrightarrow> modify_task userId existingTasks t (db, res)
            = (None, db,
               push_conflict (if template_raises (op_title t) then ModifyFailed (op_id t)
                              else ModifyWithoutID t) res)
        \<and> alignTasksWithPlan db userId [Some t] existingTasks
            = (Returned
                 (push_conflict (if template_raises (op_title t) then ModifyFailed (op_id t)
                                 else ModifyWithoutID t) empty_result), db))"
proof -
  have create: "\<exists>c. add_task userId existingTasks t (db, res) = (None, db, push_conflict c res)
            \<and> alignTasksWithPlan db userId [Some t] existingTasks
                = (Returned (push_conflict c empty_result), db)"
    if a: "create_shaped t \<and>
      (op_title t = JUndefined \<or> op_title t = JNull
       \<or> (\<exists>s. op_title t = JStr s \<and> list_all is_space s)
       \<or> op_duration t = JUndefined \<or> op_duration t = JNull
       \<or> (\<exists>n. op_duration t = JNum n \<and> n \<le> 0))"
  proof -
    from a obtain c
      where c: "\<And>r. add_task userId existingTasks t (db, r) = (None, db, push_conflict c r)"
      using invalid_create[of t userId existingTasks db] by blast
    from a have "create_shaped t" by simp
    then show ?thesis using c by (auto simp: batch_one_create)
  qed
  have delete: "delete_task userId existingTasks t (db, res)
            = (None, db,
               push_conflict (if template_raises (op_title t) then DeleteFailed (op_id t)
                              else DeleteWithoutID t) res)
        \<and> alignTasksWithPlan db userId [Some t] existingTasks
            = (Returned
                 (push_conflict (if template_raises (op_title t) then DeleteFailed (op_id t)
                                 else DeleteWithoutID t) empty_result), db)"
    if a: "delete_shaped t \<and> \<not> truthy (op_id t)"
  proof -
    have p: "\<not> template_raises (op_id t)" using a falsy_printable by blast
    have tr: "template_raises (op_title t) \<Longrightarrow> truthy (op_title t)"
      using falsy_printable by blast
    have s: "delete_task userId existingTasks t (db, r)
            = (None, db,
               push_conflict (if template_raises (op_title t) then DeleteFailed (op_id t)
                              else DeleteWithoutID t) r)" for r
      using a p tr by (auto simp: delete_task_def delete_task_try_def)
    from a show ?thesis by (simp add: batch_one_delete s)
  qed
  have modify: "modify_task userId existingTasks t (db, res)
            = (None, db,
               push_conflict (if template_raises (op_title t) then ModifyFailed (op_id t)
                              else ModifyWithoutID t) res)
        \<and> alignTasksWithPlan db userId [Some t] existingTasks
            = (Returned
                 (push_conflict (if template_raises (op_title t) then ModifyFailed (op_id t)
                                 else ModifyWithoutID t) empty_result), db)"
    if a: "modify_shaped t \<and> \<not> truthy (op_id t)"
  proof -
    have p: "\<not> template_raises (op_id t)" using a falsy_printable by blast
    have tr: "template_raises (op_title t) \<Longrightarrow> truthy (op_title t)"
      using falsy_printable by blast
    have s: "modify_task userId existingTasks t (db, r)
            = (None, db,
               push_conflict (if template_raises (op_title t) then ModifyFailed (op_id t)
                              else ModifyWithoutID t) r)" for r
      using a p tr by (auto simp: modify_task_def modify_task_try_def)
    from a show ?thesis by (simp add: batch_one_modify s)
  qed
  from create delete modify show ?thesis by blast
qed

text \<open>The witness: a create with a blank title, a delete without an id, a modify
  with an empty id, and a delete without an id whose title is the object
  \<open>{"toString": 1}\<close>, each on a store whose next query would raise; the conflict is
  recorded and the store is untouched.\<close>

theorem rejected_operations_touch_no_storage_witness:
  "alignTasksWithPlan
        \<lparr>tasks = [], faults = [True], fresh = (\<lambda>n. ''00000000-0000-4000-8000-000000000000''),
         issued = 0\<rparr>
        ''u1''
        [Some \<lparr>op_id = JUndefined, op_action = JStr ''add'', op_title = JStr ''  '',
           op_duration = JNum 15, op_importance = JUndefined, op_status = JUndefined,
           op_scheduledTime = JUndefined\<rparr>] []
      = (Returned
           \<lparr>insertedTasks = [], modifiedTasks = [], deletedTasks = [],
            conflicts = [InvalidTitle \<lparr>op_id = JUndefined, op_action = JStr ''add'',
               op_title = JStr ''  '', op_duration = JNum 15, op_importance = JUndefined,
               op_status = JUndefined, op_scheduledTime = JUndefined\<rparr>]\<rparr>,
         \<lparr>tasks = [], faults = [True],
          fresh = (\<lambda>n. ''00000000-0000-4000-8000-000000000000''), issued = 0\<rparr>)
   \<and> alignTasksWithPlan
        \<lparr>tasks = [], faults = [True], fresh = (\<lambda>n. ''00000000-0000-4000-8000-000000000000''),
         issued = 0\<rparr>
        ''u1''
        [Some \<lparr>op_id = JUndefined, op_action = JStr ''delete'', op_title = JStr ''Workout'',
           op_duration = JUndefined, op_importance = JUndefined, op_status = JUndefined,
           op_scheduledTime = JUndefined\<rparr>] []
      = (Returned
           \<lparr>insertedTasks = [], modifiedTasks = [], deletedTasks = [],
            conflicts = [DeleteWithoutID \<lparr>op_id = JUndefined, op_action = JStr ''delete'',
               op_title = JStr ''Workout'', op_duration = JUndefined,
               op_importance = JUndefined, op_status = JUndefined,
               op_scheduledTime = JUndefined\<rparr>]\<rparr>,
         \<lparr>tasks = [], faults = [True],
          fresh = (\<lambda>n. ''00000000-0000-4000-8000-000000000000''), issued = 0\<rparr>)
   \<and> alignTasksWithPlan
        \<lparr>tasks = [], faults = [True], fresh = (\<lambda>n. ''00000000-0000-4000-8000-000000000000''),
         issued = 0\<rparr>
        ''u1''
        [Some \<lparr>op_id = JStr [], op_action = JStr ''update'', op_title = JStr ''Workout'',
           op_duration = JNum 20, op_importance = JUndefined, op_status = JUndefined,
           op_scheduledTime = JUndefined\<rparr>] []
      = (Returned
           \<lparr>insertedTasks = [], modifiedTasks = [], deletedTasks = [],
            conflicts = [ModifyWithoutID \<lparr>op_id = JStr [], op_action = JStr ''update'',
               op_title = JStr ''Workout'', op_duration = JNum 20,
               op_importance = JUndefined, op_status = JUndefined,
               op_scheduledTime = JUndefined\<rparr>]\<rparr>,
         \<lparr>tasks = [], faults = [True],
          fresh = (\<lambda>n. ''00000000-0000-4000-8000-000000000000''), issued = 0\<rparr>)
   \<and> alignTasksWithPlan
        \<lparr>tasks = [], faults = [True], fresh = (\<lambda>n. ''00000000-0000-4000-8000-000000000000''),
         issued = 0\<rparr>
        ''u1''
        [Some \<lparr>op_id = JUndefined, op_action = JStr ''delete'', op_title = JObject None,
           op_duration = JUndefined, op_importance = JUndefined, op_status = JUndefined,
           op_scheduledTime = JUndefined\<rparr>] []
      = (Returned
           \<lparr>insertedTasks = [], modifiedTasks = [], deletedTasks = [],
            conflicts = [DeleteFailed JUndefined]\<rparr>,
         \<lparr>tasks = [], faults = [True],
          fresh = (\<lambda>n. ''00000000-0000-4000-8000-000000000000''), issued = 0\<rparr>)"
proof -
  let ?db = "\<lparr>tasks = [], faults = [True],
          fresh = (\<lambda>n. ''00000000-0000-4000-8000-000000000000''), issued = 0\<rparr>"
  let ?t1 = "\<lparr>op_id = JUndefined, op_action = JStr ''add'', op_title = JStr ''  '',
           op_duration = JNum 15, op_importance = JUndefined, op_status = JUndefined,
           op_scheduledTime = JUndefined\<rparr>"
  let ?t2 = "\<lparr>op_id = JUndefined, op_action = JStr ''delete'', op_title = JStr ''Workout'',
           op_duration = JUndefined, op_importance = JUndefined, op_status = JUndefined,
           op_scheduledTime = JUndefined\<rparr>"
  let ?t3 = "\<lparr>op_id = JStr [], op_action = JStr ''update'', op_title = JStr ''Workout'',
           op_duration = JNum 20, op_importance = JUndefined, op_status = JUndefined,
           op_scheduledTime = JUndefined\<rparr>"
  have h1: "create_shaped ?t1 \<and> (\<exists>s. op_title ?t1 = JStr s \<and> list_all is_space s)"
    by (simp add: create_shaped_def is_space_def)
  have c1: "add_task ''u1'' [] ?t1 (?db, empty_result)
              = (None, ?db, push_conflict (InvalidTitle ?t1) empty_result)"
    by (simp add: add_task_def add_task_try_def invalid_title_def trim_def is_space_def)
  have a: "alignTasksWithPlan ?db ''u1'' [Some ?t1] []
             = (Returned (push_conflict (InvalidTitle ?t1) empty_result), ?db)"
    using rejected_operations_touch_no_storage
      [where t = ?t1 and db = ?db and res = empty_result and userId = "''u1''"
         and existingTasks = "[]", THEN conjunct1] h1 c1
    by (auto simp: push_conflict_def)
  have h2: "delete_shaped ?t2 \<and> \<not> truthy (op_id ?t2)"
    by (simp add: delete_shaped_def)
  have b: "alignTasksWithPlan ?db ''u1'' [Some ?t2] []
             = (Returned (push_conflict (DeleteWithoutID ?t2) empty_result), ?db)"
    using rejected_operations_touch_no_storage
      [where t = ?t2 and db = ?db and res = empty_result and userId = "''u1''"
         and existingTasks = "[]", THEN conjunct2, THEN conjunct1] h2
    by (simp add: template_raises_def)
  have h3: "modify_shaped ?t3 \<and> \<not> truthy (op_id ?t3)"
    by (simp add: modify_shaped_def)
  have c: "alignTasksWithPlan ?db ''u1'' [Some ?t3] []
             = (Returned (push_conflict (ModifyWithoutID ?t3) empty_result), ?db)"
    using rejected_operations_touch_no_storage
      [where t = ?t3 and db = ?db and res = empty_result and userId = "''u1''"
         and existingTasks = "[]", THEN conjunct2, THEN conjunct2] h3
    by (simp add: template_raises_def)
  let ?t4 = "\<lparr>op_id = JUndefined, op_action = JStr ''delete'', op_title = JObject None,
           op_duration = JUndefined, op_importance = JUndefined, op_status = JUndefined,
           op_scheduledTime = JUndefined\<rparr>"
  have h4: "delete_shaped ?t4 \<and> \<not> truthy (op_id ?t4)"
    by (simp add: delete_shaped_def)
  have d: "alignTasksWithPlan ?db ''u1'' [Some ?t4] []
             = (Returned (push_conflict (DeleteFailed JUndefined) empty_result), ?db)"
    using rejected_operations_touch_no_storage
      [where t = ?t4 and db = ?db and res = empty_result and userId = "''u1''"
         and existingTasks = "[]", THEN conjunct2, THEN conjunct1] h4
    by (simp add: template_raises_def)
  from a b c d show ?thesis
    by (simp add: push_conflict_def empty_result_def)
qed

subsection \<open>What the function returns when an item fails\<close>


































section \<open>Properties of the model router\<close>








subsection \<open>cleanAIResponse\<close>

lemma gsub_plain:
  assumes "\<And>prev cs. m prev (120 # cs) = None"
  shows "gsub m prev 0 (replicate n 120) = replicate n 120"
  using assms by (induction n arbitrary: prev) simp_all

lemma replace_all_plain:
  assumes "\<And>prev cs. m prev (120 # cs) = None"
  shows "replace_all m (replicate n 120) = replicate n 120"
  unfolding replace_all_def using assms by (rule gsub_plain)

lemma not_ws_plain [simp]: "\<not> is_ws 120"
  by (simp add: is_ws_def)

lemma tag_block_plain: "tag_block tag prev (120 # cs) = None"
  by (simp add: tag_block_def ustr_def ci_char_def)

lemma debug_block_plain:
  "of_char upper \<noteq> (120::nat) \<Longrightarrow> of_char lower \<noteq> (120::nat) \<Longrightarrow>
   debug_block upper lower word prev (120 # cs) = None"
  by (auto simp: debug_block_def)

lemma delimited_plain: "delimited (CHR ''*'' # d) prev (120 # cs) = None"
  "delimited (CHR ''_'' # d) prev (120 # cs) = None"
  "delimited (CHR ''`'' # d) prev (120 # cs) = None"
  by (simp_all add: delimited_def ustr_def)

lemma headers_plain: "headers prev (120 # cs) = None"
  by (simp add: headers_def)

lemma list_items_plain: "list_items prev (120 # cs) = None"
  by (simp add: list_items_def)

lemma numbered_items_plain: "numbered_items prev (120 # cs) = None"
  by (simp add: numbered_items_def is_udigit_def)

lemma newline_runs_plain: "newline_runs prev (120 # cs) = None"
  by (simp add: newline_runs_def)

lemma edge_space_plain: "edge_space prev (120 # cs) = None"
  by (simp add: edge_space_def)

lemma strip_markup_plain: "strip_markup (replicate n 120) = replicate n 120"
  by (simp add: strip_markup_def replace_all_plain tag_block_plain debug_block_plain
      delimited_plain headers_plain list_items_plain numbered_items_plain newline_runs_plain
      edge_space_plain)

lemma dropWhile_plain: "dropWhile is_ws (replicate n 120) = replicate n 120"
  by (cases n) simp_all

lemma utrim_plain: "utrim (replicate n 120) = replicate n 120"
  by (simp add: utrim_def dropWhile_plain)

lemma split_plain:
  "split_sentences cur in_run (replicate n 120) = [rev cur @ replicate n 120]"
  by (induction n arbitrary: cur in_run) (simp_all add: is_sentence_end_def replicate_app_Cons_same)

lemma long_plain_reply_cleaned_to_nothing:
  assumes "1000 < n"
  shows "cleanAIResponse (Some (replicate n 120)) = []"
proof -
  have "replicate n 120 \<noteq> ([]::nat list)" using assms by auto
  then show ?thesis
    using assms
    by (simp add: cleanAIResponse_def utrim_plain strip_markup_plain split_plain)
       (simp add: utrim_def)
qed

text \<open>
  C8. The claim: the function never returns the empty text. The emptiness check comes
  before the truncation of a long reply, and the truncation keeps only whole sentences
  that fit in 800 code units. A reply of 1001 letters \<open>x\<close> has nothing to strip and is one
  sentence of more than 800 code units: the loop breaks at once and the function
  returns the empty text.
\<close>

theorem cleanAIResponse_returns_empty:
  "cleanAIResponse (Some (replicate 1001 120)) = []"
  by (rule long_plain_reply_cleaned_to_nothing) simp

section \<open>Properties of the game score\<close>

lemma filter_update:
  "filter (\<lambda>r. score_user r = u) (map (\<lambda>r. if score_user r = u then r\<lparr>score := s\<rparr> else r) rows)
     = map (\<lambda>r. r\<lparr>score := s\<rparr>) (filter (\<lambda>r. score_user r = u) rows)"
  by (induction rows) auto

lemma filter_update_other:
  "v \<noteq> u \<Longrightarrow> filter (\<lambda>r. score_user r = v) (map (\<lambda>r. if score_user r = u then r\<lparr>score := s\<rparr> else r) rows)
     = filter (\<lambda>r. score_user r = v) rows"
  by (induction rows) auto

lemmas game_defs = saveGameHighScore_def save_try_def sql_select_scores_def sql_update_score_def
  sql_insert_score_def game_raises_def stored_score_def

text \<open>
  C10. Whatever the request and the faults, a stored score never decreases, and when it
  changes the new value is the submitted score, strictly greater than the old one. A
  submitted score that is not greater than the stored one leaves the table as it was,
  and, when it is not negative and no call raises, the answer is still the success
  response echoing the submitted score. A greater score is stored.
\<close>

theorem saveGameHighScore_monotone:
  "(saveGameHighScore userId body_score db = (res, db') \<and> stored_score db userId = Some old \<longrightarrow>
      (\<exists>new. stored_score db' userId = Some new \<and> old \<le> new
             \<and> (new \<noteq> old \<longrightarrow> body_score = JNum new \<and> old < new)))
   \<and> (saveGameHighScore userId body_score db = (res, db') \<and> stored_score db userId = Some old
       \<and> body_score = JNum s \<and> s \<le> old \<longrightarrow> game_scores db' = game_scores db)
   \<and> (stored_score db userId = Some old \<and> 0 \<le> s \<and> s \<le> old \<and> game_faults db = [] \<longrightarrow>
      saveGameHighScore userId (JNum s) db = (Saved s, db))
   \<and> (stored_score db userId = Some old \<and> old < s \<and> 0 \<le> s \<and> game_faults db = [] \<longrightarrow>
      (\<exists>db'. saveGameHighScore userId (JNum s) db = (Saved s, db') \<and> stored_score db' userId = Some s))"
proof (intro conjI impI)
  assume a: "saveGameHighScore userId body_score db = (res, db') \<and> stored_score db userId = Some old"
  then obtain r rs where f: "filter (\<lambda>r. score_user r = userId) (game_scores db) = r # rs" "score r = old"
    by (auto simp: stored_score_def split: list.splits)
  from a f show "\<exists>new. stored_score db' userId = Some new \<and> old \<le> new
             \<and> (new \<noteq> old \<longrightarrow> body_score = JNum new \<and> old < new)"
    by (auto simp: game_defs filter_update split: jsval.splits if_splits list.splits bool.splits)
next
  assume a: "saveGameHighScore userId body_score db = (res, db') \<and> stored_score db userId = Some old
       \<and> body_score = JNum s \<and> s \<le> old"
  then obtain r rs where f: "filter (\<lambda>r. score_user r = userId) (game_scores db) = r # rs" "score r = old"
    by (auto simp: stored_score_def split: list.splits)
  from a f show "game_scores db' = game_scores db"
    by (auto simp: game_defs split: jsval.splits if_splits list.splits bool.splits)
next
  assume a: "stored_score db userId = Some old \<and> 0 \<le> s \<and> s \<le> old \<and> game_faults db = []"
  then obtain r rs where f: "filter (\<lambda>r. score_user r = userId) (game_scores db) = r # rs" "score r = old"
    by (auto simp: stored_score_def split: list.splits)
  from a f show "saveGameHighScore userId (JNum s) db = (Saved s, db)"
    by (auto simp: game_defs)
next
  assume a: "stored_score db userId = Some old \<and> old < s \<and> 0 \<le> s \<and> game_faults db = []"
  then obtain r rs where f: "filter (\<lambda>r. score_user r = userId) (game_scores db) = r # rs" "score r = old"
    by (auto simp: stored_score_def split: list.splits)
  from a f show "\<exists>db'. saveGameHighScore userId (JNum s) db = (Saved s, db') \<and> stored_score db' userId = Some s"
    by (auto simp: game_defs filter_update)
qed

text \<open>The witness: a stored score of 50; 30 is submitted, then 70.\<close>

theorem saveGameHighScore_monotone_witness:
  "saveGameHighScore ''u1'' (JNum 30)
      \<lparr>game_scores = [\<lparr>score_user = ''u1'', score = 50\<rparr>], game_faults = []\<rparr>
     = (Saved 30, \<lparr>game_scores = [\<lparr>score_user = ''u1'', score = 50\<rparr>], game_faults = []\<rparr>)
   \<and> (\<exists>db'. saveGameHighScore ''u1'' (JNum 70)
          \<lparr>game_scores = [\<lparr>score_user = ''u1'', score = 50\<rparr>], game_faults = []\<rparr>
        = (Saved 70, db') \<and> stored_score db' ''u1'' = Some 70)"
proof -
  let ?db = "\<lparr>game_scores = [\<lparr>score_user = ''u1'', score = 50\<rparr>], game_faults = []\<rparr>"
  have st: "stored_score ?db ''u1'' = Some 50"
    by (simp add: stored_score_def)
  have a: "saveGameHighScore ''u1'' (JNum 30) ?db = (Saved 30, ?db)"
    using saveGameHighScore_monotone
      [where db = ?db and userId = "''u1''" and old = 50 and s = 30,
       THEN conjunct2, THEN conjunct2, THEN conjunct1] st
    by simp
  have b: "\<exists>db'. saveGameHighScore ''u1'' (JNum 70) ?db = (Saved 70, db')
             \<and> stored_score db' ''u1'' = Some 70"
    using saveGameHighScore_monotone
      [where db = ?db and userId = "''u1''" and old = 50 and s = 70,
       THEN conjunct2, THEN conjunct2, THEN conjunct2] st
    by simp
  from a b show ?thesis by simp
qed

section \<open>Properties of the AI controller\<close>

lemma match_array_span:
  assumes "CHR ''['' \<notin> set pre" and "CHR '']'' \<notin> set post"
  shows "match_array (pre @ ''['' @ mid @ '']'' @ post) = Some (''['' @ mid @ '']'')"
proof -
  have 1: "dropWhile (\<lambda>c. c \<noteq> CHR ''['') (pre @ ''['' @ mid @ '']'' @ post) = ''['' @ mid @ '']'' @ post"
    using assms(1) by (auto simp: dropWhile_append3)
  have 2: "dropWhile (\<lambda>c. c \<noteq> CHR '']'') (rev (mid @ '']'' @ post)) = CHR '']'' # rev mid"
    using assms(2) by (auto simp: dropWhile_append3)
  show ?thesis
    unfolding match_array_def 1 using 2 by simp
qed

text \<open>
  C7, as stated: the extraction yields the first balanced array of the reply, never a
  larger span. In this reply the array is followed by prose that holds a \<open>]\<close>: the
  match runs to that last bracket, while the first balanced array ends where the array
  does.
\<close>

theorem greedy_match_counterexample:
  \<open>match_array ''Tasks: [{"title":"A","duration":10}] (see note [1])''
     = Some ''[{"title":"A","duration":10}] (see note [1]''
   \<and> spec_first_balanced_array ''Tasks: [{"title":"A","duration":10}] (see note [1])''
     = Some ''[{"title":"A","duration":10}]''\<close>
  by (simp add: match_array_def spec_first_balanced_array_def)

text \<open>
  C7, amended: the primary extraction takes the text from the first \<open>[\<close> of the reply to
  its last \<open>]\<close> and hands exactly that to \<open>JSON.parse\<close>. So when no \<open>[\<close> stands before the
  array and no \<open>]\<close> after it, what is parsed is the array.
\<close>

theorem primary_extraction_span:
  assumes "CHR ''['' \<notin> set pre" and "CHR '']'' \<notin> set post"
  shows "match_array (pre @ ''['' @ mid @ '']'' @ post) = Some (''['' @ mid @ '']'')
         \<and> primary_extraction JSON_parse (pre @ ''['' @ mid @ '']'' @ post)
            = JSON_parse (''['' @ mid @ '']'')"
  using match_array_span[OF assms] by (simp add: primary_extraction_def)

text \<open>The witness is the reply of the specification's example.\<close>

theorem primary_extraction_span_witness:
  \<open>match_array ''Sure! Here are your tasks: [{"title":"A","duration":10}] Hope that helps!''
     = Some ''[{"title":"A","duration":10}]''
   \<and> primary_extraction (\<lambda>s. Inr s :: exn + string)
       ''Sure! Here are your tasks: [{"title":"A","duration":10}] Hope that helps!''
     = Inr ''[{"title":"A","duration":10}]''\<close>
  using primary_extraction_span
    [of \<open>''Sure! Here are your tasks: ''\<close> \<open>'' Hope that helps!''\<close>
        \<open>''{"title":"A","duration":10}''\<close> \<open>\<lambda>s. Inr s :: exn + string\<close>]
  by simp

lemma clean_task_range: "clean_task t = Inr c \<Longrightarrow> 5 \<le> vt_duration c \<and> vt_duration c \<le> 480"
  by (auto simp: clean_task_def Let_def split: sum.splits jsval.splits if_splits)

lemma map_clean_range: "map_clean ts = Inr cs \<Longrightarrow> c \<in> set cs \<Longrightarrow> 5 \<le> vt_duration c \<and> vt_duration c \<le> 480"
proof (induction ts arbitrary: cs)
  case Nil then show ?case by simp
next
  case (Cons t ts)
  then show ?case
    by (auto split: sum.splits dest: clean_task_range)
qed

lemma add_task_inserted:
  assumes "add_task uid ex t (db, res) = (out, db1, res1)"
    and "insertedTasks res1 \<noteq> insertedTasks res"
  shows "\<exists>n nt r. op_duration t = JNum n \<and> 0 < n
          \<and> insertedTasks res1 = insertedTasks res @ [nt] \<and> new_duration nt = JNum n
          \<and> tasks db1 = tasks db @ [r] \<and> row_duration_minutes r = JNum n"
  using assms
  by (auto simp: add_task_def add_task_try_def push_conflict_def invalid_duration_def js_or_def
        sql_insert_task_def query_raises_def Let_def
      split: if_splits sum.splits option.splits prod.splits list.splits bool.splits jsval.splits)

text \<open>
  C9, as stated: a task inserted by the create pass has a duration between 5 and 480.
  The create pass checks that the duration is a positive number and stores it as it
  is: a proposed task of 1000 minutes is inserted with 1000 minutes.
\<close>

theorem create_pass_keeps_duration_counterexample:
  "alignTasksWithPlan
     \<lparr>tasks = [], faults = [], fresh = (\<lambda>n. ''00000000-0000-4000-8000-000000000000''),
      issued = 0\<rparr>
     ''u1''
     [Some \<lparr>op_id = JUndefined, op_action = JUndefined, op_title = JStr ''Deep work'',
            op_duration = JNum 1000, op_importance = JUndefined, op_status = JUndefined,
            op_scheduledTime = JUndefined\<rparr>] []
   = (Returned
        \<lparr>insertedTasks =
           [\<lparr>new_id = JStr ''00000000-0000-4000-8000-000000000000'', new_title = ''Deep work'',
             new_duration = JNum 1000, new_importance = JStr ''medium'',
             new_scheduledTime = JNull, new_status = ''todo''\<rparr>],
         modifiedTasks = [], deletedTasks = [], conflicts = []\<rparr>,
      \<lparr>tasks =
         [\<lparr>row_id = JStr ''00000000-0000-4000-8000-000000000000'', row_user = ''u1'',
           row_title = JStr ''Deep work'', row_duration_minutes = JNum 1000,
           row_importance = JStr ''medium'', row_status = JStr ''todo'',
           row_scheduled_time = JNull\<rparr>],
       faults = [], fresh = (\<lambda>n. ''00000000-0000-4000-8000-000000000000''),
       issued = Suc 0\<rparr>)"
  by (simp add: align_defs store_defs string_defs Let_def)

text \<open>
  C9, amended: every task that the validation of a voice extraction returns has a
  duration between 5 and 480 (the handler returns the tasks; it stores none). A task
  inserted by the create pass of the alignment has the proposed duration, a positive
  number, unchanged, in the result and in the stored row.
\<close>

theorem ai_task_durations:
  "(validTasks extractedTasks = Inr ts \<and> c \<in> set ts
      \<longrightarrow> 5 \<le> vt_duration c \<and> vt_duration c \<le> 480)
   \<and> (add_task userId existingTasks t (db, res) = (out, db1, res1)
       \<and> insertedTasks res1 \<noteq> insertedTasks res
      \<longrightarrow> (\<exists>n nt r. op_duration t = JNum n \<and> 0 < n
            \<and> insertedTasks res1 = insertedTasks res @ [nt] \<and> new_duration nt = JNum n
            \<and> tasks db1 = tasks db @ [r] \<and> row_duration_minutes r = JNum n))"
proof -
  have voice: "5 \<le> vt_duration c \<and> vt_duration c \<le> 480"
    if a: "validTasks extractedTasks = Inr ts \<and> c \<in> set ts"
  proof -
    from a obtain ks where "map_clean ks = Inr ts"
      by (auto simp: validTasks_def split: sum.splits)
    with a show ?thesis using map_clean_range by blast
  qed
  have create: "\<exists>n nt r. op_duration t = JNum n \<and> 0 < n
            \<and> insertedTasks res1 = insertedTasks res @ [nt] \<and> new_duration nt = JNum n
            \<and> tasks db1 = tasks db @ [r] \<and> row_duration_minutes r = JNum n"
    if "add_task userId existingTasks t (db, res) = (out, db1, res1)
       \<and> insertedTasks res1 \<noteq> insertedTasks res"
    using that add_task_inserted by blast
  from voice create show ?thesis by blast
qed

text \<open>The witness: an extracted task of 1000 minutes is returned with 480; the same
  proposal is inserted by the create pass with 1000.\<close>

theorem ai_task_durations_witness:
  "validTasks
     [Some \<lparr>raw_title = JStr ''Deep work'', raw_duration = JNum 1000,
            raw_importance = JStr ''high'', raw_scheduledTime = JUndefined,
            raw_notes = JUndefined\<rparr>]
     = Inr [\<lparr>vt_title = ''Deep work'', vt_duration = 480, vt_importance = JStr ''high'',
             vt_scheduledTime = None, vt_notes = None\<rparr>]
   \<and> add_task ''u1'' []
        \<lparr>op_id = JUndefined, op_action = JUndefined, op_title = JStr ''Deep work'',
         op_duration = JNum 1000, op_importance = JUndefined, op_status = JUndefined,
         op_scheduledTime = JUndefined\<rparr>
        (\<lparr>tasks = [], faults = [],
          fresh = (\<lambda>n. ''00000000-0000-4000-8000-000000000000''), issued = 0\<rparr>,
         empty_result)
      = (None,
         \<lparr>tasks =
            [\<lparr>row_id = JStr ''00000000-0000-4000-8000-000000000000'', row_user = ''u1'',
              row_title = JStr ''Deep work'', row_duration_minutes = JNum 1000,
              row_importance = JStr ''medium'', row_status = JStr ''todo'',
              row_scheduled_time = JNull\<rparr>],
          faults = [],
          fresh = (\<lambda>n. ''00000000-0000-4000-8000-000000000000''), issued = Suc 0\<rparr>,
         empty_result\<lparr>insertedTasks :=
            [\<lparr>new_id = JStr ''00000000-0000-4000-8000-000000000000'',
              new_title = ''Deep work'', new_duration = JNum 1000,
              new_importance = JStr ''medium'', new_scheduledTime = JNull,
              new_status = ''todo''\<rparr>]\<rparr>)"
proof -
  let ?raw = "\<lparr>raw_title = JStr ''Deep work'', raw_duration = JNum 1000,
            raw_importance = JStr ''high'', raw_scheduledTime = JUndefined,
            raw_notes = JUndefined\<rparr>"
  let ?c = "\<lparr>vt_title = ''Deep work'', vt_duration = 480, vt_importance = JStr ''high'',
             vt_scheduledTime = None, vt_notes = None\<rparr>"
  let ?t = "\<lparr>op_id = JUndefined, op_action = JUndefined, op_title = JStr ''Deep work'',
           op_duration = JNum 1000, op_importance = JUndefined, op_status = JUndefined,
           op_scheduledTime = JUndefined\<rparr>"
  let ?db = "\<lparr>tasks = [], faults = [],
            fresh = (\<lambda>n. ''00000000-0000-4000-8000-000000000000''), issued = 0\<rparr>"
  let ?r = "\<lparr>row_id = JStr ''00000000-0000-4000-8000-000000000000'', row_user = ''u1'',
           row_title = JStr ''Deep work'', row_duration_minutes = JNum 1000,
           row_importance = JStr ''medium'', row_status = JStr ''todo'',
           row_scheduled_time = JNull\<rparr>"
  let ?nt = "\<lparr>new_id = JStr ''00000000-0000-4000-8000-000000000000'', new_title = ''Deep work'',
             new_duration = JNum 1000, new_importance = JStr ''medium'',
             new_scheduledTime = JNull, new_status = ''todo''\<rparr>"
  let ?db1 = "\<lparr>tasks = [?r], faults = [],
            fresh = (\<lambda>n. ''00000000-0000-4000-8000-000000000000''), issued = Suc 0\<rparr>"
  have v: "validTasks [Some ?raw] = Inr [?c]"
    by (simp add: validTasks_def isValid_def clean_task_def normalize_time_def string_defs)
  have a: "add_task ''u1'' [] ?t (?db, empty_result)
             = (None, ?db1, empty_result\<lparr>insertedTasks := [?nt]\<rparr>)"
    by (simp add: align_defs store_defs string_defs Let_def)
  have "5 \<le> vt_duration ?c \<and> vt_duration ?c \<le> 480"
    using ai_task_durations
      [where extractedTasks = "[Some ?raw]" and ts = "[?c]" and c = ?c, THEN conjunct1] v
    by simp
  with v a show ?thesis by simp
qed

end
